theory Spec2Isabelle
  imports Complex_Main "HOL-Library.AList"
begin

section \<open>Values and the graph data model\<close>

text \<open>
  Field values and field defaults are JSON values. The embedding keeps the kinds the
  node-type catalog uses: strings, (integer) numbers, booleans and \<open>null\<close>. An absent
  key (JavaScript \<open>undefined\<close>) is \<open>None\<close> in an option or a missing key of an
  association list.
\<close>

datatype jsval = JStr string | JNum int | JBool bool | JNull

text \<open>JavaScript truthiness (\<open>!v\<close>, \<open>v || w\<close>) of such a value.\<close>

fun truthy :: "jsval \<Rightarrow> bool" where
  "truthy (JStr s) = (s \<noteq> [])"
| "truthy (JNum n) = (n \<noteq> 0)"
| "truthy (JBool b) = b"
| "truthy JNull = False"

text \<open>
  A field definition of the catalog: \<open>{ name, type, label, required, default }\<close>.
  \<open>frequired\<close> is the truthiness of \<open>field.required\<close>; \<open>fdefault = None\<close> is
  \<open>field.default === undefined\<close>.
\<close>

record field_def =
  fname :: string
  ftype :: string
  flabel :: string
  frequired :: bool
  fdefault :: "jsval option"

text \<open>
  A node type definition. Colour and icon are presentation only and left out;
  \<open>maxInstances = None\<close> is an entry without that key.
\<close>

record node_type =
  type_id :: string
  label :: string
  category :: string
  maxInstances :: "nat option"
  outputs :: "string list"
  inputs :: "string list"
  tfields :: "field_def list"

text \<open>
  A node \<open>{ id, type, x, y, data }\<close> and a connection \<open>{ from, fromPort, to, toPort }\<close>.
  \<open>ndata\<close> is the \<open>data\<close> object as an association list in key order; a node
  without a \<open>data\<close> object reads like one with the empty object in every place
  modelled here (\<open>!node.data || !node.data[k]\<close>, \<open>node.data?.title\<close>).
\<close>

record path_node =
  nid :: string
  ntype :: string
  nx :: int
  ny :: int
  ndata :: "(string \<times> jsval) list"

record connection =
  cfrom :: string
  fromPort :: string
  cto :: string
  toPort :: string

section \<open>The editor's graph model (editor.js)\<close>

text \<open>
  The part of the editor's module state that the node and connection operations read
  and write: \<open>pathData.nodes\<close>, \<open>pathData.connections\<close>, \<open>selectedNodeId\<close>,
  \<open>dirty\<close>, and the calls of \<open>toast(msg, type)\<close> as a log. Rendering
  (\<open>renderCanvas\<close>, \<open>renderNodes\<close>, \<open>renderProperties\<close>) writes only to the DOM.
\<close>

record editor =
  nodes :: "path_node list"
  connections :: "connection list"
  selectedNodeId :: "string option"
  dirty :: bool
  toasts :: "(string \<times> string) list"

text \<open>The state the editor starts from when no stored path is embedded in the page.\<close>

definition initial_editor :: editor where
  "initial_editor =
     \<lparr>nodes = [], connections = [], selectedNodeId = None, dirty = False, toasts = []\<rparr>"

definition toast :: "string \<Rightarrow> string \<Rightarrow> editor \<Rightarrow> editor" where
  "toast msg ty s = s\<lparr>toasts := toasts s @ [(msg, ty)]\<rparr>"

definition selectNode :: "string option \<Rightarrow> editor \<Rightarrow> editor" where
  "selectNode nodeId s = s\<lparr>selectedNodeId := nodeId\<rparr>"

text \<open>Decimal rendering of a non-negative integer, as string concatenation does it.\<close>

definition digit_char :: "nat \<Rightarrow> char" where
  "digit_char n = ''0123456789'' ! n"

function show_nat :: "nat \<Rightarrow> string" where
  "show_nat n = (if n < 10 then [digit_char n]
                 else show_nat (n div 10) @ [digit_char (n mod 10)])"
  by pat_completeness auto
termination
  by (relation "measure (\<lambda>n. n)") auto

declare show_nat.simps [simp del]

text \<open>
  \<open>Math.round(v / 10) * 10\<close> on an integer coordinate: \<open>Math.round\<close> takes the
  nearest integer and rounds a half up.
\<close>

definition snap10 :: "int \<Rightarrow> int" where
  "snap10 v = ((v + 5) div 10) * 10"

text \<open>
  The loop \<open>for (const field of nt.fields || []) if (field.default !== undefined)
  node.data[field.name] = field.default\<close>, starting from \<open>data = {}\<close>. Assigning to a
  key of an object replaces the value of an existing key in place and appends a new key.
\<close>

fun set_defaults :: "field_def list \<Rightarrow> (string \<times> jsval) list \<Rightarrow> (string \<times> jsval) list" where
  "set_defaults [] d = d"
| "set_defaults (f # fs) d =
     (case fdefault f of
        None \<Rightarrow> set_defaults fs d
      | Some v \<Rightarrow> set_defaults fs (AList.update (fname f) v d))"

text \<open>
  \<open>addNode(type, x, y)\<close>. \<open>nodeTypes\<close> is the catalog the editor fetched; the
  function argument stands for the read \<open>nodeTypes[type]\<close>, \<open>None\<close> when the result is
  falsy. \<open>now\<close> is the value of \<open>Date.now()\<close> and \<open>rnd\<close> the value of
  \<open>Math.random().toString(36).substr(2, 6)\<close> at the call.
\<close>

definition addNode ::
  "(string \<Rightarrow> node_type option) \<Rightarrow> nat \<Rightarrow> string \<Rightarrow> string \<Rightarrow> int \<Rightarrow> int \<Rightarrow> editor \<Rightarrow> editor" where
  "addNode nodeTypes now rnd type x y s =
     (case nodeTypes type of
        None \<Rightarrow> s
      | Some nt \<Rightarrow>
          (case maxInstances nt of
             Some m \<Rightarrow>
               if m \<noteq> 0 \<and> m \<le> length (filter (\<lambda>n. ntype n = type) (nodes s))
               then toast (''Only '' @ show_nat m @ '' '' @ label nt @ '' node(s) allowed'') ''error'' s
               else
                 (let node = \<lparr>nid = ''node_'' @ show_nat now @ ''_'' @ rnd, ntype = type,
                               nx = snap10 x, ny = snap10 y,
                               ndata = set_defaults (tfields nt) []\<rparr>
                  in selectNode (Some (nid node)) (s\<lparr>nodes := nodes s @ [node], dirty := True\<rparr>))
           | None \<Rightarrow>
               (let node = \<lparr>nid = ''node_'' @ show_nat now @ ''_'' @ rnd, ntype = type,
                             nx = snap10 x, ny = snap10 y,
                             ndata = set_defaults (tfields nt) []\<rparr>
                in selectNode (Some (nid node)) (s\<lparr>nodes := nodes s @ [node], dirty := True\<rparr>))))"

text \<open>\<open>deleteNode(nodeId)\<close>.\<close>

definition deleteNode :: "string \<Rightarrow> editor \<Rightarrow> editor" where
  "deleteNode nodeId s =
     (let s1 = s\<lparr>nodes := filter (\<lambda>n. nid n \<noteq> nodeId) (nodes s)\<rparr>;
          s2 = s1\<lparr>connections := filter (\<lambda>c. cfrom c \<noteq> nodeId \<and> cto c \<noteq> nodeId) (connections s1)\<rparr>;
          s3 = (if selectedNodeId s2 = Some nodeId then selectNode None s2 else s2)
      in s3\<lparr>dirty := True\<rparr>)"

text \<open>\<open>addConnection(fromId, fromPort, toId, toPort)\<close>.\<close>

definition addConnection :: "string \<Rightarrow> string \<Rightarrow> string \<Rightarrow> string \<Rightarrow> editor \<Rightarrow> editor" where
  "addConnection fromId fromP toId toP s =
     (let exists = list_ex (\<lambda>c. cfrom c = fromId \<and> fromPort c = fromP \<and> cto c = toId \<and> toPort c = toP)
                     (connections s)
      in if exists then s
         else
           (let inputTaken = list_ex (\<lambda>c. cto c = toId \<and> toPort c = toP) (connections s)
            in if inputTaken then toast ''Input port already connected'' ''error'' s
               else s\<lparr>connections := connections s @
                         [\<lparr>cfrom = fromId, fromPort = fromP, cto = toId, toPort = toP\<rparr>],
                       dirty := True\<rparr>))"

text \<open>\<open>removeConnection(fromId, fromPort, toId, toPort)\<close>.\<close>

definition removeConnection :: "string \<Rightarrow> string \<Rightarrow> string \<Rightarrow> string \<Rightarrow> editor \<Rightarrow> editor" where
  "removeConnection fromId fromP toId toP s =
     s\<lparr>connections := filter (\<lambda>c. \<not> (cfrom c = fromId \<and> fromPort c = fromP \<and> cto c = toId \<and> toPort c = toP))
                         (connections s),
       dirty := True\<rparr>"

text \<open>
  \<open>updateField(fieldName, value)\<close>: writes into the \<open>data\<close> of the first node whose id is
  the selected one (\<open>pathData.nodes.find\<close>), and does nothing when there is none.
\<close>

fun update_first :: "('a \<Rightarrow> bool) \<Rightarrow> ('a \<Rightarrow> 'a) \<Rightarrow> 'a list \<Rightarrow> 'a list" where
  "update_first P f [] = []"
| "update_first P f (a # as) = (if P a then f a # as else a # update_first P f as)"

definition updateField :: "string \<Rightarrow> jsval \<Rightarrow> editor \<Rightarrow> editor" where
  "updateField fieldName v s =
     (case selectedNodeId s of
        None \<Rightarrow> s
      | Some sel \<Rightarrow>
          if list_ex (\<lambda>n. nid n = sel) (nodes s)
          then s\<lparr>nodes := update_first (\<lambda>n. nid n = sel)
                             (\<lambda>n. n\<lparr>ndata := AList.update fieldName v (ndata n)\<rparr>) (nodes s),
                 dirty := True\<rparr>
          else s)"

text \<open>
  The node drag of \<open>onSvgMouseMove\<close>: the first node with the dragged id gets the pointer
  position (already reduced by the drag offset) snapped to the grid.
\<close>

definition moveNode :: "string \<Rightarrow> int \<Rightarrow> int \<Rightarrow> editor \<Rightarrow> editor" where
  "moveNode nodeId px py s =
     (if list_ex (\<lambda>n. nid n = nodeId) (nodes s)
      then s\<lparr>nodes := update_first (\<lambda>n. nid n = nodeId)
                         (\<lambda>n. n\<lparr>nx := snap10 px, ny := snap10 py\<rparr>) (nodes s),
             dirty := True\<rparr>
      else s)"

section \<open>Deleting a node\<close>

lemma deleteNode_nodes:
  "nodes (deleteNode nodeId s) = filter (\<lambda>n. nid n \<noteq> nodeId) (nodes s)"
  by (simp add: deleteNode_def Let_def selectNode_def)

lemma deleteNode_connections:
  "connections (deleteNode nodeId s) =
     filter (\<lambda>c. cfrom c \<noteq> nodeId \<and> cto c \<noteq> nodeId) (connections s)"
  by (simp add: deleteNode_def Let_def selectNode_def)

text \<open>
  C5. After \<open>deleteNode nodeId\<close> no node has the id, no connection has it as source or
  as destination, and every other node and connection is still there, in its old order.
\<close>

theorem deleteNode_cascades:
  "nodeId \<notin> nid ` set (nodes (deleteNode nodeId s)) \<and>
   nodeId \<notin> cfrom ` set (connections (deleteNode nodeId s)) \<and>
   nodeId \<notin> cto ` set (connections (deleteNode nodeId s)) \<and>
   nodes (deleteNode nodeId s) = filter (\<lambda>n. nid n \<noteq> nodeId) (nodes s) \<and>
   connections (deleteNode nodeId s) =
     filter (\<lambda>c. cfrom c \<noteq> nodeId \<and> cto c \<noteq> nodeId) (connections s)"
  by (auto simp: deleteNode_nodes deleteNode_connections)

section \<open>Connections: one predecessor per input port\<close>

text \<open>
  The invariant of the data model: no two connections end at the same
  \<open>(toNodeId, toPort)\<close>.
\<close>

definition single_predecessor :: "connection list \<Rightarrow> bool" where
  "single_predecessor cs = distinct (map (\<lambda>c. (cto c, toPort c)) cs)"

text \<open>
  The states the editor reaches from \<open>s0\<close> by its operations on the graph, each with
  any arguments.
\<close>

inductive reachable :: "(string \<Rightarrow> node_type option) \<Rightarrow> editor \<Rightarrow> editor \<Rightarrow> bool"
  for nodeTypes :: "string \<Rightarrow> node_type option" and s0 :: editor where
  start: "reachable nodeTypes s0 s0"
| add_node: "reachable nodeTypes s0 s \<Longrightarrow> reachable nodeTypes s0 (addNode nodeTypes now rnd type x y s)"
| delete_node: "reachable nodeTypes s0 s \<Longrightarrow> reachable nodeTypes s0 (deleteNode nodeId s)"
| add_connection: "reachable nodeTypes s0 s \<Longrightarrow> reachable nodeTypes s0 (addConnection fromId fromP toId toP s)"
| remove_connection: "reachable nodeTypes s0 s \<Longrightarrow> reachable nodeTypes s0 (removeConnection fromId fromP toId toP s)"
| update_field: "reachable nodeTypes s0 s \<Longrightarrow> reachable nodeTypes s0 (updateField fieldName v s)"
| move_node: "reachable nodeTypes s0 s \<Longrightarrow> reachable nodeTypes s0 (moveNode nodeId px py s)"
| select_node: "reachable nodeTypes s0 s \<Longrightarrow> reachable nodeTypes s0 (selectNode sel s)"

lemma addNode_connections: "connections (addNode nodeTypes now rnd type x y s) = connections s"
  by (simp add: addNode_def toast_def selectNode_def Let_def split: option.splits)

lemma updateField_connections: "connections (updateField fieldName v s) = connections s"
  by (simp add: updateField_def split: option.splits)

lemma moveNode_connections: "connections (moveNode nodeId px py s) = connections s"
  by (simp add: moveNode_def)

lemma selectNode_connections: "connections (selectNode sel s) = connections s"
  by (simp add: selectNode_def)

lemma removeConnection_connections:
  "connections (removeConnection fromId fromP toId toP s) =
     filter (\<lambda>c. \<not> (cfrom c = fromId \<and> fromPort c = fromP \<and> cto c = toId \<and> toPort c = toP)) (connections s)"
  by (simp add: removeConnection_def)

lemma addConnection_connections:
  "connections (addConnection fromId fromP toId toP s) =
     (if list_ex (\<lambda>c. cto c = toId \<and> toPort c = toP) (connections s) then connections s
      else connections s @ [\<lparr>cfrom = fromId, fromPort = fromP, cto = toId, toPort = toP\<rparr>])"
  by (auto simp: addConnection_def toast_def Let_def list_ex_iff)

lemma single_predecessor_filter:
  "single_predecessor cs \<Longrightarrow> single_predecessor (filter P cs)"
  unfolding single_predecessor_def by (rule distinct_map_filter)

lemma single_predecessor_addConnection:
  assumes "single_predecessor (connections s)"
  shows "single_predecessor (connections (addConnection fromId fromP toId toP s))"
  using assms unfolding addConnection_connections single_predecessor_def
  by (auto simp: list_ex_iff)

lemma reachable_single_predecessor:
  assumes "reachable nodeTypes s0 s" and "single_predecessor (connections s0)"
  shows "single_predecessor (connections s)"
  using assms
proof (induction rule: reachable.induct)
  case start
  then show ?case by simp
next
  case (delete_node s nodeId)
  then show ?case by (simp add: deleteNode_connections single_predecessor_filter)
next
  case (add_connection s fromId fromP toId toP)
  then show ?case by (simp add: single_predecessor_addConnection)
next
  case (remove_connection s fromId fromP toId toP)
  then show ?case by (simp add: removeConnection_connections single_predecessor_filter)
qed (simp_all add: addNode_connections updateField_connections moveNode_connections selectNode_connections)

text \<open>
  C4. When the destination port \<open>(toId, toPort)\<close> already has an incoming connection,
  or the very same connection exists, \<open>addConnection\<close> leaves the connection list as
  it was. Hence every state reached by the editor's operations from a state with at most
  one connection per input port (the empty graph, for one) still has at most one.
\<close>

theorem addConnection_keeps_single_predecessor:
  "(((\<exists>c \<in> set (connections s). cto c = toId \<and> toPort c = toP) \<or>
     (\<exists>c \<in> set (connections s). cfrom c = fromId \<and> fromPort c = fromP \<and> cto c = toId \<and> toPort c = toP))
      \<longrightarrow> connections (addConnection fromId fromP toId toP s) = connections s) \<and>
   (single_predecessor (connections s0) \<and> reachable nodeTypes s0 s'
      \<longrightarrow> single_predecessor (connections s'))"
  by (auto simp: addConnection_connections list_ex_iff reachable_single_predecessor)

theorem addConnection_keeps_single_predecessor_witness:
  "connections (addConnection ''c'' ''next'' ''b'' ''prev''
      (addConnection ''a'' ''next'' ''b'' ''prev'' initial_editor)) =
     [\<lparr>cfrom = ''a'', fromPort = ''next'', cto = ''b'', toPort = ''prev''\<rparr>] \<and>
   single_predecessor (connections (addConnection ''c'' ''next'' ''b'' ''prev''
      (addConnection ''a'' ''next'' ''b'' ''prev'' initial_editor)))"
proof -
  let ?s1 = "addConnection ''a'' ''next'' ''b'' ''prev'' initial_editor"
  let ?s2 = "addConnection ''c'' ''next'' ''b'' ''prev'' ?s1"
  have c1: "connections ?s1 = [\<lparr>cfrom = ''a'', fromPort = ''next'', cto = ''b'', toPort = ''prev''\<rparr>]"
    by (simp add: addConnection_connections initial_editor_def)
  have taken: "\<exists>c \<in> set (connections ?s1). cto c = ''b'' \<and> toPort c = ''prev''"
    by (simp add: c1)
  have r: "reachable (\<lambda>_. None) initial_editor ?s2"
    by (intro reachable.add_connection reachable.start)
  have i: "single_predecessor (connections initial_editor)"
    by (simp add: single_predecessor_def initial_editor_def)
  note T = addConnection_keeps_single_predecessor
         [where s = ?s1 and toId = "''b''" and toP = "''prev''" and fromId = "''c''"
            and fromP = "''next''" and ?s0.0 = initial_editor and nodeTypes = "\<lambda>_. None" and s' = ?s2]
  from T taken have a: "connections ?s2 = connections ?s1" by blast
  from T r i have b: "single_predecessor (connections ?s2)" by blast
  from a c1 have c: "connections ?s2 = [\<lparr>cfrom = ''a'', fromPort = ''next'', cto = ''b'', toPort = ''prev''\<rparr>]"
    by (rule trans)
  from c b show ?thesis by (rule conjI)
qed

section \<open>The node-type catalog (nodeTypes.js)\<close>

text \<open>
  The constant \<open>NODE_TYPES\<close>, entry by entry in the order of the source. The server
  sends this object to the editor as its \<open>nodeTypes\<close>.
\<close>

definition start_type :: node_type where
  "start_type =
     \<lparr>type_id = ''start'', label = ''Start'', category = ''control'',
      maxInstances = Some 1, outputs = [''next''], inputs = [],
      tfields =
         []\<rparr>"

definition end_type :: node_type where
  "end_type =
     \<lparr>type_id = ''end'', label = ''End'', category = ''control'',
      maxInstances = Some 1, outputs = [], inputs = [''prev''],
      tfields =
         [\<lparr>fname = ''completionMessage'', ftype = ''text'', flabel = ''Completion Message'',
            frequired = False, fdefault = Some (JStr ''Congratulations! You have completed this learning path.'')\<rparr>]\<rparr>"

definition theory_type :: node_type where
  "theory_type =
     \<lparr>type_id = ''theory'', label = ''Theory Unit'', category = ''content'',
      maxInstances = None, outputs = [''next''], inputs = [''prev''],
      tfields =
         [\<lparr>fname = ''title'', ftype = ''text'', flabel = ''Title'',
            frequired = True, fdefault = None\<rparr>,
          \<lparr>fname = ''description'', ftype = ''textarea'', flabel = ''Description'',
            frequired = False, fdefault = None\<rparr>,
          \<lparr>fname = ''content'', ftype = ''richtext'', flabel = ''Content (HTML)'',
            frequired = False, fdefault = None\<rparr>,
          \<lparr>fname = ''estimatedMinutes'', ftype = ''number'', flabel = ''Estimated Duration (min)'',
            frequired = False, fdefault = Some (JNum 15)\<rparr>,
          \<lparr>fname = ''passingScore'', ftype = ''number'', flabel = ''Passing Score (%)'',
            frequired = False, fdefault = Some (JNum 0)\<rparr>]\<rparr>"

definition guidedLab_type :: node_type where
  "guidedLab_type =
     \<lparr>type_id = ''guidedLab'', label = ''Guided Lab'', category = ''content'',
      maxInstances = None, outputs = [''next''], inputs = [''prev''],
      tfields =
         [\<lparr>fname = ''title'', ftype = ''text'', flabel = ''Title'',
            frequired = True, fdefault = None\<rparr>,
          \<lparr>fname = ''description'', ftype = ''textarea'', flabel = ''Description'',
            frequired = False, fdefault = None\<rparr>,
          \<lparr>fname = ''labUrl'', ftype = ''url'', flabel = ''Lab Environment URL'',
            frequired = False, fdefault = None\<rparr>,
          \<lparr>fname = ''instructions'', ftype = ''richtext'', flabel = ''Instructions (HTML)'',
            frequired = False, fdefault = None\<rparr>,
          \<lparr>fname = ''estimatedMinutes'', ftype = ''number'', flabel = ''Estimated Duration (min)'',
            frequired = False, fdefault = Some (JNum 45)\<rparr>,
          \<lparr>fname = ''passingScore'', ftype = ''number'', flabel = ''Passing Score (%)'',
            frequired = False, fdefault = Some (JNum 70)\<rparr>]\<rparr>"

definition wiki_type :: node_type where
  "wiki_type =
     \<lparr>type_id = ''wiki'', label = ''Wiki Page'', category = ''content'',
      maxInstances = None, outputs = [''next''], inputs = [''prev''],
      tfields =
         [\<lparr>fname = ''title'', ftype = ''text'', flabel = ''Title'',
            frequired = True, fdefault = None\<rparr>,
          \<lparr>fname = ''description'', ftype = ''textarea'', flabel = ''Description'',
            frequired = False, fdefault = None\<rparr>,
          \<lparr>fname = ''content'', ftype = ''richtext'', flabel = ''Wiki Content (HTML)'',
            frequired = False, fdefault = None\<rparr>,
          \<lparr>fname = ''estimatedMinutes'', ftype = ''number'', flabel = ''Estimated Duration (min)'',
            frequired = False, fdefault = Some (JNum 10)\<rparr>]\<rparr>"

definition url_type :: node_type where
  "url_type =
     \<lparr>type_id = ''url'', label = ''Website URL'', category = ''content'',
      maxInstances = None, outputs = [''next''], inputs = [''prev''],
      tfields =
         [\<lparr>fname = ''title'', ftype = ''text'', flabel = ''Title'',
            frequired = True, fdefault = None\<rparr>,
          \<lparr>fname = ''description'', ftype = ''textarea'', flabel = ''Description'',
            frequired = False, fdefault = None\<rparr>,
          \<lparr>fname = ''url'', ftype = ''url'', flabel = ''URL'',
            frequired = True, fdefault = None\<rparr>,
          \<lparr>fname = ''openInNewTab'', ftype = ''checkbox'', flabel = ''Open in new tab'',
            frequired = False, fdefault = Some (JBool False)\<rparr>,
          \<lparr>fname = ''estimatedMinutes'', ftype = ''number'', flabel = ''Estimated Duration (min)'',
            frequired = False, fdefault = Some (JNum 10)\<rparr>]\<rparr>"

definition h5p_type :: node_type where
  "h5p_type =
     \<lparr>type_id = ''h5p'', label = ''H5P Package'', category = ''package'',
      maxInstances = None, outputs = [''next''], inputs = [''prev''],
      tfields =
         [\<lparr>fname = ''title'', ftype = ''text'', flabel = ''Title'',
            frequired = True, fdefault = None\<rparr>,
          \<lparr>fname = ''description'', ftype = ''textarea'', flabel = ''Description'',
            frequired = False, fdefault = None\<rparr>,
          \<lparr>fname = ''h5pContentId'', ftype = ''h5p-picker'', flabel = ''H5P Content'',
            frequired = False, fdefault = None\<rparr>,
          \<lparr>fname = ''estimatedMinutes'', ftype = ''number'', flabel = ''Estimated Duration (min)'',
            frequired = False, fdefault = Some (JNum 20)\<rparr>,
          \<lparr>fname = ''passingScore'', ftype = ''number'', flabel = ''Passing Score (%)'',
            frequired = False, fdefault = Some (JNum 70)\<rparr>]\<rparr>"

definition cmi5_type :: node_type where
  "cmi5_type =
     \<lparr>type_id = ''cmi5'', label = ''cmi5 Package'', category = ''package'',
      maxInstances = None, outputs = [''next''], inputs = [''prev''],
      tfields =
         [\<lparr>fname = ''title'', ftype = ''text'', flabel = ''Title'',
            frequired = True, fdefault = None\<rparr>,
          \<lparr>fname = ''description'', ftype = ''textarea'', flabel = ''Description'',
            frequired = False, fdefault = None\<rparr>,
          \<lparr>fname = ''packageUrl'', ftype = ''url'', flabel = ''Package URL / Launch URL'',
            frequired = True, fdefault = None\<rparr>,
          \<lparr>fname = ''activityId'', ftype = ''text'', flabel = ''Activity ID (IRI)'',
            frequired = False, fdefault = None\<rparr>,
          \<lparr>fname = ''moveOn'', ftype = ''select'', flabel = ''Move On Criteria'',
            frequired = False, fdefault = Some (JStr ''CompletedOrPassed'')\<rparr>,
          \<lparr>fname = ''masteryScore'', ftype = ''number'', flabel = ''Mastery Score (%)'',
            frequired = False, fdefault = Some (JNum 70)\<rparr>,
          \<lparr>fname = ''estimatedMinutes'', ftype = ''number'', flabel = ''Estimated Duration (min)'',
            frequired = False, fdefault = Some (JNum 30)\<rparr>]\<rparr>"

definition scorm_type :: node_type where
  "scorm_type =
     \<lparr>type_id = ''scorm'', label = ''SCORM Package'', category = ''package'',
      maxInstances = None, outputs = [''next''], inputs = [''prev''],
      tfields =
         [\<lparr>fname = ''title'', ftype = ''text'', flabel = ''Title'',
            frequired = True, fdefault = None\<rparr>,
          \<lparr>fname = ''description'', ftype = ''textarea'', flabel = ''Description'',
            frequired = False, fdefault = None\<rparr>,
          \<lparr>fname = ''packageUrl'', ftype = ''url'', flabel = ''SCORM Package URL / Launch URL'',
            frequired = True, fdefault = None\<rparr>,
          \<lparr>fname = ''scormVersion'', ftype = ''select'', flabel = ''SCORM Version'',
            frequired = False, fdefault = Some (JStr ''2004 4th Edition'')\<rparr>,
          \<lparr>fname = ''passingScore'', ftype = ''number'', flabel = ''Passing Score (%)'',
            frequired = False, fdefault = Some (JNum 70)\<rparr>,
          \<lparr>fname = ''estimatedMinutes'', ftype = ''number'', flabel = ''Estimated Duration (min)'',
            frequired = False, fdefault = Some (JNum 30)\<rparr>]\<rparr>"

definition gate_type :: node_type where
  "gate_type =
     \<lparr>type_id = ''gate'', label = ''Gate (Pass Required)'', category = ''control'',
      maxInstances = None, outputs = [''pass'', ''fail''], inputs = [''prev''],
      tfields =
         [\<lparr>fname = ''title'', ftype = ''text'', flabel = ''Gate Title'',
            frequired = False, fdefault = Some (JStr ''Progress Check'')\<rparr>,
          \<lparr>fname = ''requiredScore'', ftype = ''number'', flabel = ''Required Score (%)'',
            frequired = False, fdefault = Some (JNum 70)\<rparr>]\<rparr>"

definition branch_type :: node_type where
  "branch_type =
     \<lparr>type_id = ''branch'', label = ''Branch'', category = ''control'',
      maxInstances = None, outputs = [''pathA'', ''pathB''], inputs = [''prev''],
      tfields =
         [\<lparr>fname = ''title'', ftype = ''text'', flabel = ''Branch Title'',
            frequired = False, fdefault = None\<rparr>,
          \<lparr>fname = ''conditionType'', ftype = ''select'', flabel = ''Condition'',
            frequired = False, fdefault = Some (JStr ''learner-choice'')\<rparr>,
          \<lparr>fname = ''pathALabel'', ftype = ''text'', flabel = ''Path A Label'',
            frequired = False, fdefault = Some (JStr ''Path A'')\<rparr>,
          \<lparr>fname = ''pathBLabel'', ftype = ''text'', flabel = ''Path B Label'',
            frequired = False, fdefault = Some (JStr ''Path B'')\<rparr>]\<rparr>"

definition NODE_TYPES :: "(string \<times> node_type) list" where
  "NODE_TYPES =
     [(''start'', start_type),
      (''end'', end_type),
      (''theory'', theory_type),
      (''guidedLab'', guidedLab_type),
      (''wiki'', wiki_type),
      (''url'', url_type),
      (''h5p'', h5p_type),
      (''cmi5'', cmi5_type),
      (''scorm'', scorm_type),
      (''gate'', gate_type),
      (''branch'', branch_type)]"

section \<open>Adding a node\<close>

lemma show_nat_1: "show_nat (Suc 0) = ''1''"
  by (subst show_nat.simps) (simp add: digit_char_def)




text \<open>The id expression of \<open>addNode\<close> and its instance-cap test, named for the statements.\<close>

definition node_id_of :: "nat \<Rightarrow> string \<Rightarrow> string" where
  "node_id_of now rnd = ''node_'' @ show_nat now @ ''_'' @ rnd"

definition cap_reached :: "node_type \<Rightarrow> string \<Rightarrow> editor \<Rightarrow> bool" where
  "cap_reached nt type s =
     (case maxInstances nt of None \<Rightarrow> False
      | Some m \<Rightarrow> m \<noteq> 0 \<and> m \<le> length (filter (\<lambda>n. ntype n = type) (nodes s)))"

lemma set_defaults_other:
  "k \<notin> fname ` set fs \<Longrightarrow> map_of (set_defaults fs d) k = map_of d k"
  by (induction fs arbitrary: d) (auto simp: update_conv' split: option.splits)

lemma set_defaults_field:
  "distinct (map fname fs) \<Longrightarrow> f \<in> set fs \<Longrightarrow>
   map_of (set_defaults fs d) (fname f) =
     (case fdefault f of None \<Rightarrow> map_of d (fname f) | Some v \<Rightarrow> Some v)"
proof (induction fs arbitrary: d)
  case Nil
  then show ?case by simp
next
  case (Cons g gs)
  show ?case
  proof (cases "f = g")
    case True
    with Cons.prems have "fname f \<notin> fname ` set gs" by auto
    with True show ?thesis
      by (simp add: set_defaults_other update_conv' split: option.splits)
  next
    case False
    with Cons.prems have "f \<in> set gs" "distinct (map fname gs)" by auto
    moreover from this Cons.prems have "fname f \<noteq> fname g" by (auto simp: image_iff)
    ultimately
    show ?thesis using Cons.IH by (simp add: update_conv' split: option.splits)
  qed
qed

lemma set_defaults_keys:
  "fst ` set (set_defaults fs d) = fst ` set d \<union> fname ` {f \<in> set fs. fdefault f \<noteq> None}"
  by (induction fs arbitrary: d) (auto simp: dom_update split: option.splits)

lemma addNode_at_cap:
  assumes "nodeTypes type = Some nt" and "maxInstances nt = Some m" and "m \<noteq> 0"
    and "m \<le> length (filter (\<lambda>n. ntype n = type) (nodes s))"
  shows "addNode nodeTypes now rnd type x y s =
           toast (''Only '' @ show_nat m @ '' '' @ label nt @ '' node(s) allowed'') ''error'' s"
  using assms by (simp add: addNode_def)

lemma addNode_below_cap:
  assumes "nodeTypes type = Some nt"
    and "case maxInstances nt of None \<Rightarrow> True
         | Some m \<Rightarrow> m = 0 \<or> length (filter (\<lambda>n. ntype n = type) (nodes s)) < m"
  shows "addNode nodeTypes now rnd type x y s =
           s\<lparr>nodes := nodes s @ [\<lparr>nid = ''node_'' @ show_nat now @ ''_'' @ rnd, ntype = type,
                                     nx = snap10 x, ny = snap10 y,
                                     ndata = set_defaults (tfields nt) []\<rparr>],
             dirty := True,
             selectedNodeId := Some (''node_'' @ show_nat now @ ''_'' @ rnd)\<rparr>"
  using assms by (auto simp: addNode_def selectNode_def Let_def split: option.splits)

lemma one_le_filter: "\<exists>n \<in> set xs. P n \<Longrightarrow> 1 \<le> length (filter P xs)"
  by (induction xs) auto


text \<open>
  C3 (as amended). For a type of the catalog: when its \<open>maxInstances\<close> is 1 and the graph
  has an instance of it, \<open>addNode\<close> reports the error toast and leaves nodes and
  connections as they were. When the cap is not reached it appends exactly one node, of
  that type, whose \<open>data\<close> holds the default of every field that has one (and no other
  key), and whose id is \<open>node_<Date.now()>_<random suffix>\<close>. The id is not compared
  with the ids in the graph: it is new, and ids stay distinct, when that string is not
  in use yet.
\<close>

theorem addNode_capacity_and_defaults:
  "nodeTypes type = Some nt \<Longrightarrow>
   (let s' = addNode nodeTypes now rnd type x y s in
     (maxInstances nt = Some 1 \<and> (\<exists>n \<in> set (nodes s). ntype n = type) \<longrightarrow>
        nodes s' = nodes s \<and> connections s' = connections s \<and>
        toasts s' = toasts s @ [(''Only 1 '' @ label nt @ '' node(s) allowed'', ''error'')]) \<and>
     (\<not> cap_reached nt type s \<longrightarrow>
        (\<exists>node. nodes s' = nodes s @ [node] \<and> connections s' = connections s \<and>
           ntype node = type \<and> nid node = node_id_of now rnd \<and>
           fst ` set (ndata node) = fname ` {f \<in> set (tfields nt). fdefault f \<noteq> None} \<and>
           (distinct (map fname (tfields nt)) \<longrightarrow>
              (\<forall>f \<in> set (tfields nt). map_of (ndata node) (fname f) = fdefault f)) \<and>
           (node_id_of now rnd \<notin> nid ` set (nodes s) \<longrightarrow>
              nid node \<notin> nid ` set (nodes s) \<and>
              (distinct (map nid (nodes s)) \<longrightarrow> distinct (map nid (nodes s')))))))"
proof -
  assume nt: "nodeTypes type = Some nt"
  let ?s' = "addNode nodeTypes now rnd type x y s"
  have full: "nodes ?s' = nodes s \<and> connections ?s' = connections s \<and>
        toasts ?s' = toasts s @ [(''Only 1 '' @ label nt @ '' node(s) allowed'', ''error'')]"
    if "maxInstances nt = Some 1" and "\<exists>n \<in> set (nodes s). ntype n = type"
  proof -
    from that(2) have "1 \<le> length (filter (\<lambda>n. ntype n = type) (nodes s))"
      by (rule one_le_filter)
    with nt that(1) have "?s' = toast (''Only '' @ show_nat 1 @ '' '' @ label nt @ '' node(s) allowed'') ''error'' s"
      by (intro addNode_at_cap) auto
    then show ?thesis by (simp add: toast_def show_nat_1)
  qed
  have room: "\<exists>node. nodes ?s' = nodes s @ [node] \<and> connections ?s' = connections s \<and>
           ntype node = type \<and> nid node = node_id_of now rnd \<and>
           fst ` set (ndata node) = fname ` {f \<in> set (tfields nt). fdefault f \<noteq> None} \<and>
           (distinct (map fname (tfields nt)) \<longrightarrow>
              (\<forall>f \<in> set (tfields nt). map_of (ndata node) (fname f) = fdefault f)) \<and>
           (node_id_of now rnd \<notin> nid ` set (nodes s) \<longrightarrow>
              nid node \<notin> nid ` set (nodes s) \<and>
              (distinct (map nid (nodes s)) \<longrightarrow> distinct (map nid (nodes ?s'))))"
    if "\<not> cap_reached nt type s"
  proof -
    let ?node = "\<lparr>nid = ''node_'' @ show_nat now @ ''_'' @ rnd, ntype = type,
                   nx = snap10 x, ny = snap10 y, ndata = set_defaults (tfields nt) []\<rparr>"
    from that have "case maxInstances nt of None \<Rightarrow> True
         | Some m \<Rightarrow> m = 0 \<or> length (filter (\<lambda>n. ntype n = type) (nodes s)) < m"
      by (auto simp: cap_reached_def split: option.splits)
    with nt have "?s' = s\<lparr>nodes := nodes s @ [?node], dirty := True,
             selectedNodeId := Some (''node_'' @ show_nat now @ ''_'' @ rnd)\<rparr>"
      by (rule addNode_below_cap)
    then have n: "nodes ?s' = nodes s @ [?node]" and c: "connections ?s' = connections s"
      by simp_all
    have d: "\<forall>f \<in> set (tfields nt). map_of (ndata ?node) (fname f) = fdefault f"
      if "distinct (map fname (tfields nt))"
      using that by (auto simp: set_defaults_field split: option.splits)
    have k: "fst ` set (ndata ?node) = fname ` {f \<in> set (tfields nt). fdefault f \<noteq> None}"
      by (simp add: set_defaults_keys)
    show ?thesis
      by (rule exI [of _ ?node]) (use n c d k in \<open>auto simp: node_id_of_def\<close>)
  qed
  from full room show ?thesis by (simp add: Let_def)
qed


theorem addNode_capacity_and_defaults_witness:
  "(let s = initial_editor\<lparr>nodes := [\<lparr>nid = ''s'', ntype = ''start'', nx = 0, ny = 0, ndata = []\<rparr>]\<rparr>;
        s' = addNode (map_of NODE_TYPES) 1730000000000 ''k3x9ab'' ''start'' 104 96 s
    in nodes s' = nodes s \<and> connections s' = connections s \<and>
       toasts s' = [(''Only 1 Start node(s) allowed'', ''error'')]) \<and>
   (\<exists>node. nodes (addNode (map_of NODE_TYPES) 1730000000000 ''k3x9ab'' ''theory'' 104 96 initial_editor)
             = [node] \<and>
      nid node = ''node_1730000000000_k3x9ab'' \<and>
      map_of (ndata node) ''estimatedMinutes'' = Some (JNum 15) \<and>
      map_of (ndata node) ''title'' = None)"
proof -
  let ?s = "initial_editor\<lparr>nodes := [\<lparr>nid = ''s'', ntype = ''start'', nx = 0, ny = 0, ndata = []\<rparr>]\<rparr>"
  have st: "map_of NODE_TYPES ''start'' = Some start_type"
    by (simp add: NODE_TYPES_def)
  have th: "map_of NODE_TYPES ''theory'' = Some theory_type"
    by (simp add: NODE_TYPES_def)
  have cap: "maxInstances start_type = Some 1 \<and> (\<exists>n \<in> set (nodes ?s). ntype n = ''start'')"
    by (simp add: start_type_def)
  have room: "\<not> cap_reached theory_type ''theory'' initial_editor"
    by (simp add: cap_reached_def theory_type_def)
  have dist: "distinct (map fname (tfields theory_type))"
    by (simp add: theory_type_def)
  have f1: "\<lparr>fname = ''estimatedMinutes'', ftype = ''number'', flabel = ''Estimated Duration (min)'',
              frequired = False, fdefault = Some (JNum 15)\<rparr> \<in> set (tfields theory_type)"
    by (simp add: theory_type_def)
  have f2: "\<lparr>fname = ''title'', ftype = ''text'', flabel = ''Title'',
              frequired = True, fdefault = None\<rparr> \<in> set (tfields theory_type)"
    by (simp add: theory_type_def)
  have idv: "node_id_of 1730000000000 ''k3x9ab'' = ''node_1730000000000_k3x9ab''"
    by (simp add: node_id_of_def show_nat.simps digit_char_def)
  have a: "nodes (addNode (map_of NODE_TYPES) 1730000000000 ''k3x9ab'' ''start'' 104 96 ?s) = nodes ?s \<and>
        connections (addNode (map_of NODE_TYPES) 1730000000000 ''k3x9ab'' ''start'' 104 96 ?s) = connections ?s \<and>
        toasts (addNode (map_of NODE_TYPES) 1730000000000 ''k3x9ab'' ''start'' 104 96 ?s) =
          [(''Only 1 Start node(s) allowed'', ''error'')]"
    using addNode_capacity_and_defaults
            [where nodeTypes = "map_of NODE_TYPES" and type = "''start''" and nt = start_type
               and now = 1730000000000 and rnd = "''k3x9ab''" and x = 104 and y = 96 and s = ?s]
          st cap
    by (simp add: Let_def initial_editor_def start_type_def)
  have b: "\<exists>node. nodes (addNode (map_of NODE_TYPES) 1730000000000 ''k3x9ab'' ''theory'' 104 96 initial_editor)
             = [node] \<and>
      nid node = ''node_1730000000000_k3x9ab'' \<and>
      map_of (ndata node) ''estimatedMinutes'' = Some (JNum 15) \<and>
      map_of (ndata node) ''title'' = None"
  proof -
    from addNode_capacity_and_defaults
           [where nodeTypes = "map_of NODE_TYPES" and type = "''theory''" and nt = theory_type
              and now = 1730000000000 and rnd = "''k3x9ab''" and x = 104 and y = 96
              and s = initial_editor]
         th room dist
    obtain node where n: "nodes (addNode (map_of NODE_TYPES) 1730000000000 ''k3x9ab'' ''theory'' 104 96 initial_editor)
          = nodes initial_editor @ [node]"
      and i: "nid node = node_id_of 1730000000000 ''k3x9ab''"
      and d: "\<forall>f \<in> set (tfields theory_type). map_of (ndata node) (fname f) = fdefault f"
      unfolding Let_def by blast
    from d f1 have "map_of (ndata node) ''estimatedMinutes'' = Some (JNum 15)" by fastforce
    moreover from d f2 have "map_of (ndata node) ''title'' = None" by fastforce
    ultimately show ?thesis using n i idv by (simp add: initial_editor_def)
  qed
  from a b show ?thesis by (simp add: Let_def)
qed

text \<open>
  Two drops handled in the same millisecond for which \<open>Math.random\<close> yields the same
  suffix: the cap is not reached, and both nodes get the same id.
\<close>

theorem addNode_fresh_id_counterexample:
  "\<not> cap_reached theory_type ''theory''
       (addNode (map_of NODE_TYPES) 1730000000000 ''k3x9ab'' ''theory'' 104 96 initial_editor) \<and>
   map nid (nodes (addNode (map_of NODE_TYPES) 1730000000000 ''k3x9ab'' ''theory'' 300 96
              (addNode (map_of NODE_TYPES) 1730000000000 ''k3x9ab'' ''theory'' 104 96 initial_editor)))
     = [''node_1730000000000_k3x9ab'', ''node_1730000000000_k3x9ab'']"
  by (simp add: cap_reached_def addNode_def NODE_TYPES_def theory_type_def initial_editor_def
        selectNode_def show_nat.simps digit_char_def)

section \<open>File storage of learning paths (storage.js)\<close>

text \<open>
  File paths are lists of segments. \<open>PATHS_DIR\<close> is the value of \<open>path.resolve(...)\<close>:
  an absolute path in normal form, taken as a parameter \<open>dir\<close> since it depends on where
  the program is installed. \<open>path.join(PATHS_DIR, name)\<close> puts a separator between its
  arguments and normalises the result: the segments of \<open>name\<close> follow those of the
  directory, empty and \<open>.\<close> segments are dropped, and \<open>..\<close> removes the segment before
  it (POSIX separators).
\<close>

fun split_sep :: "string \<Rightarrow> string \<Rightarrow> string list" where
  "split_sep cur [] = [cur]"
| "split_sep cur (c # cs) =
     (if c = CHR ''/'' then cur # split_sep [] cs else split_sep (cur @ [c]) cs)"

fun normalize_segments :: "string list \<Rightarrow> string list \<Rightarrow> string list" where
  "normalize_segments acc [] = acc"
| "normalize_segments acc (seg # segs) =
     (if seg = [] \<or> seg = ''.'' then normalize_segments acc segs
      else if seg = ''..'' then normalize_segments (butlast acc) segs
      else normalize_segments (acc @ [seg]) segs)"

definition path_join :: "string list \<Rightarrow> string \<Rightarrow> string list" where
  "path_join dir name = normalize_segments [] (dir @ split_sep [] name)"

text \<open>The characters the regular expression \<open>/[^a-zA-Z0-9_-]/g\<close> leaves in place.\<close>

definition safe_char :: "char \<Rightarrow> bool" where
  "safe_char c = (c \<in> set ''abcdefghijklmnopqrstuvwxyzABCDEFGHIJKLMNOPQRSTUVWXYZ0123456789_-'')"

text \<open>\<open>_filePath(id)\<close>.\<close>

definition filePath :: "string list \<Rightarrow> string \<Rightarrow> string list" where
  "filePath dir ident =
     (let safeId = filter safe_char ident in path_join dir (safeId @ ''.json''))"

text \<open>A directory path in the normal form that \<open>path.resolve\<close> returns.\<close>

definition resolved :: "string list \<Rightarrow> bool" where
  "resolved dir = list_all (\<lambda>seg. seg \<noteq> [] \<and> seg \<noteq> ''.'' \<and> seg \<noteq> ''..'' \<and> CHR ''/'' \<notin> set seg) dir"

lemma split_sep_no_sep: "CHR ''/'' \<notin> set name \<Longrightarrow> split_sep cur name = [cur @ name]"
  by (induction name arbitrary: cur) auto

lemma normalize_segments_plain:
  "list_all (\<lambda>seg. seg \<noteq> [] \<and> seg \<noteq> ''.'' \<and> seg \<noteq> ''..'') segs \<Longrightarrow>
   normalize_segments acc segs = acc @ segs"
  by (induction segs arbitrary: acc) auto

lemma sep_unsafe: "\<not> safe_char CHR ''/''"
  by code_simp

lemma safe_name_no_sep: "CHR ''/'' \<notin> set (filter safe_char ident @ ''.json'')"
  using sep_unsafe by simp

lemma safe_name_not_dots:
  "filter safe_char ident @ ''.json'' \<noteq> [] \<and>
   filter safe_char ident @ ''.json'' \<noteq> ''.'' \<and>
   filter safe_char ident @ ''.json'' \<noteq> ''..''"
proof -
  have "5 \<le> length (filter safe_char ident @ ''.json'')" by simp
  then show ?thesis by (auto dest!: arg_cong [where f = length])
qed

lemma filePath_child:
  assumes "resolved dir"
  shows "filePath dir ident = dir @ [filter safe_char ident @ ''.json'']"
proof -
  let ?name = "filter safe_char ident @ ''.json''"
  have "split_sep [] ?name = [?name]"
    using split_sep_no_sep [OF safe_name_no_sep, of "[]" ident] by simp
  moreover have "list_all (\<lambda>seg. seg \<noteq> [] \<and> seg \<noteq> ''.'' \<and> seg \<noteq> ''..'') (dir @ [?name])"
    using assms safe_name_not_dots [of ident] by (auto simp: resolved_def list_all_iff)
  ultimately show ?thesis
    by (simp add: filePath_def path_join_def normalize_segments_plain del: list_all_append)
qed

text \<open>Without the filter, an id with \<open>..\<close> segments would leave the directory.\<close>

lemma path_join_unfiltered_escapes:
  "path_join [''srv'', ''data'', ''learning-paths''] ''../../secret.json'' = [''srv'', ''secret.json'']"
  by (simp add: path_join_def)

text \<open>
  The stored document of section 6 of the design. \<open>lrsConfig = None\<close> is \<open>null\<close>; an
  absent \<open>key\<close> or \<open>secret\<close> reads as the empty string (the source reads them through \<open>||\<close> with the empty string).
\<close>

record lrs_config =
  endpoint :: string
  lrs_key :: string
  lrs_secret :: string

record path_doc =
  doc_id :: string
  title :: string
  description :: string
  status :: string
  doc_nodes :: "path_node list"
  doc_connections :: "connection list"
  lrsConfig :: "lrs_config option"
  createdAt :: string
  updatedAt :: string

text \<open>
  The JSON object handed to \<open>create\<close> and \<open>update\<close> (the request body): any of the
  document's keys may be present. \<open>None\<close> is an absent key (\<open>undefined\<close>);
  \<open>p_lrsConfig = Some None\<close> is the key present with \<open>null\<close>.
\<close>

record payload =
  p_id :: "string option"
  p_title :: "string option"
  p_description :: "string option"
  p_status :: "string option"
  p_nodes :: "path_node list option"
  p_connections :: "connection list option"
  p_lrsConfig :: "lrs_config option option"
  p_createdAt :: "string option"
  p_updatedAt :: "string option"

text \<open>
  The directory of JSON files as an association list from file path to the document the
  file holds: \<open>JSON.parse\<close> of what \<open>JSON.stringify\<close> wrote is the document again.
  Reading or unlinking a file that does not exist fails with \<open>ENOENT\<close>; other I/O
  failures are outside the model. \<open>uuid\<close> is the value of \<open>crypto.randomUUID()\<close> and
  \<open>now\<close> that of \<open>new Date().toISOString()\<close> at the call.
\<close>

datatype fs_error = ENOENT

type_synonym file_system = "(string list \<times> path_doc) list"

definition get :: "string list \<Rightarrow> file_system \<Rightarrow> string \<Rightarrow> fs_error + path_doc" where
  "get dir fs ident =
     (case map_of fs (filePath dir ident) of None \<Rightarrow> Inl ENOENT | Some d \<Rightarrow> Inr d)"

text \<open>\<open>v || d\<close> on an optional string: absent and empty are both falsy.\<close>

definition or_default :: "string option \<Rightarrow> string \<Rightarrow> string" where
  "or_default v d = (case v of None \<Rightarrow> d | Some s \<Rightarrow> if s = [] then d else s)"

definition create :: "string list \<Rightarrow> file_system \<Rightarrow> string \<Rightarrow> string \<Rightarrow> payload \<Rightarrow> file_system \<times> path_doc" where
  "create dir fs uuid now data =
     (let pathData =
        \<lparr>doc_id = uuid,
         title = or_default (p_title data) ''Untitled Learning Path'',
         description = or_default (p_description data) [],
         status = ''draft'',
         doc_nodes = (case p_nodes data of None \<Rightarrow> [] | Some ns \<Rightarrow> ns),
         doc_connections = (case p_connections data of None \<Rightarrow> [] | Some cs \<Rightarrow> cs),
         lrsConfig = (case p_lrsConfig data of None \<Rightarrow> None | Some c \<Rightarrow> c),
         createdAt = now,
         updatedAt = now\<rparr>
      in (AList.update (filePath dir uuid) pathData fs, pathData))"

definition update :: "string list \<Rightarrow> file_system \<Rightarrow> string \<Rightarrow> string \<Rightarrow> payload \<Rightarrow> fs_error + file_system \<times> path_doc" where
  "update dir fs now ident data =
     (case get dir fs ident of
        Inl e \<Rightarrow> Inl e
      | Inr existing \<Rightarrow>
          (let updated = existing
             \<lparr>title := (case p_title data of Some v \<Rightarrow> v | None \<Rightarrow> title existing),
              description := (case p_description data of Some v \<Rightarrow> v | None \<Rightarrow> description existing),
              status := (case p_status data of Some v \<Rightarrow> v | None \<Rightarrow> status existing),
              doc_nodes := (case p_nodes data of Some v \<Rightarrow> v | None \<Rightarrow> doc_nodes existing),
              doc_connections := (case p_connections data of Some v \<Rightarrow> v | None \<Rightarrow> doc_connections existing),
              lrsConfig := (case p_lrsConfig data of Some v \<Rightarrow> v | None \<Rightarrow> lrsConfig existing),
              updatedAt := now\<rparr>
           in Inr (AList.update (filePath dir ident) updated fs, updated)))"

definition delete :: "string list \<Rightarrow> file_system \<Rightarrow> string \<Rightarrow> fs_error + file_system" where
  "delete dir fs ident =
     (case map_of fs (filePath dir ident) of
        None \<Rightarrow> Inl ENOENT
      | Some _ \<Rightarrow> Inr (AList.delete (filePath dir ident) fs))"

text \<open>The object spread \<open>{ ...original }\<close>: every key of the document is present.\<close>

definition spread :: "path_doc \<Rightarrow> payload" where
  "spread d =
     \<lparr>p_id = Some (doc_id d), p_title = Some (title d), p_description = Some (description d),
      p_status = Some (status d), p_nodes = Some (doc_nodes d),
      p_connections = Some (doc_connections d), p_lrsConfig = Some (lrsConfig d),
      p_createdAt = Some (createdAt d), p_updatedAt = Some (updatedAt d)\<rparr>"

definition duplicate :: "string list \<Rightarrow> file_system \<Rightarrow> string \<Rightarrow> string \<Rightarrow> string \<Rightarrow> fs_error + file_system \<times> path_doc" where
  "duplicate dir fs uuid now ident =
     (case get dir fs ident of
        Inl e \<Rightarrow> Inl e
      | Inr original \<Rightarrow>
          Inr (create dir fs uuid now ((spread original)\<lparr>p_title := Some (title original @ '' (Copy)'')\<rparr>)))"

text \<open>
  Every file is named after the id of the document in it. \<open>create\<close> establishes this
  for the file it writes, and \<open>update\<close> and \<open>delete\<close> keep it.
\<close>

definition wf_store :: "string list \<Rightarrow> file_system \<Rightarrow> bool" where
  "wf_store dir fs = list_all (\<lambda>(p, d). p = filePath dir (doc_id d)) fs"

lemma get_after_write: "get dir (AList.update (filePath dir ident) d fs) ident = Inr d"
  by (simp add: get_def update_conv')

lemma get_other_file:
  "filePath dir ident' \<noteq> filePath dir ident \<Longrightarrow>
   get dir (AList.update (filePath dir ident) d fs) ident' = get dir fs ident'"
  by (simp add: get_def update_conv')

lemma set_alist_update: "set (AList.update k v al) \<subseteq> insert (k, v) (set al)"
  by (induction al) auto

lemma wf_store_update:
  assumes "wf_store dir fs" and "p = filePath dir (doc_id d)"
  shows "wf_store dir (AList.update p d fs)"
proof -
  have "e \<in> set fs \<or> e = (p, d)" if "e \<in> set (AList.update p d fs)" for e
    using that set_alist_update [of p d fs] by auto
  with assms show ?thesis
    unfolding wf_store_def list_all_iff by auto
qed

lemma wf_store_stored:
  "wf_store dir fs \<Longrightarrow> get dir fs ident = Inr d \<Longrightarrow> filePath dir ident = filePath dir (doc_id d)"
  by (auto simp: wf_store_def get_def list_all_iff split: option.splits dest!: map_of_SomeD)

lemma wf_store_create: "wf_store dir fs \<Longrightarrow> wf_store dir (fst (create dir fs uuid now data))"
proof -
  assume w: "wf_store dir fs"
  obtain doc where c: "create dir fs uuid now data = (AList.update (filePath dir uuid) doc fs, doc)"
    and i: "doc_id doc = uuid"
    by (simp add: create_def Let_def)
  from w have "wf_store dir (AList.update (filePath dir uuid) doc fs)"
    by (rule wf_store_update) (simp add: i)
  with c show ?thesis by simp
qed

lemma wf_store_update_op:
  assumes "wf_store dir fs" and "update dir fs now ident data = Inr (fs', updated)"
  shows "wf_store dir fs'"
proof (cases "get dir fs ident")
  case (Inl e)
  with assms(2) show ?thesis by (simp add: update_def)
next
  case (Inr existing)
  with assms(1) have "filePath dir ident = filePath dir (doc_id existing)"
    by (simp add: wf_store_stored)
  with assms Inr show ?thesis
    by (auto simp: update_def Let_def intro!: wf_store_update)
qed

lemma wf_store_delete: "wf_store dir fs \<Longrightarrow> delete dir fs ident = Inr fs' \<Longrightarrow> wf_store dir fs'"
proof -
  assume w: "wf_store dir fs" and d: "delete dir fs ident = Inr fs'"
  from d have "fs' = AList.delete (filePath dir ident) fs"
    by (simp add: delete_def split: option.splits)
  then have "set fs' \<subseteq> set fs"
    by (auto simp: AList.delete_eq)
  with w show ?thesis
    unfolding wf_store_def list_all_iff by blast
qed


section \<open>Storage: file names, round trips and copies\<close>

text \<open>A small store used to instantiate the statements below.\<close>

definition example_dir :: "string list" where
  "example_dir = [''srv'', ''app'', ''data'', ''learning-paths'']"

definition empty_payload :: payload where
  "empty_payload =
     \<lparr>p_id = None, p_title = None, p_description = None, p_status = None, p_nodes = None,
      p_connections = None, p_lrsConfig = None, p_createdAt = None, p_updatedAt = None\<rparr>"

definition example_doc :: path_doc where
  "example_doc =
     \<lparr>doc_id = ''3b241101-e2bb-4255-8caf-4136c566a962'', title = ''Intro course'',
      description = [], status = ''published'',
      doc_nodes = [\<lparr>nid = ''s'', ntype = ''start'', nx = 0, ny = 0, ndata = []\<rparr>],
      doc_connections = [], lrsConfig = None,
      createdAt = ''2026-01-05T10:00:00.000Z'', updatedAt = ''2026-01-06T10:00:00.000Z''\<rparr>"

definition example_fs :: file_system where
  "example_fs = [(example_dir @ [''3b241101-e2bb-4255-8caf-4136c566a962.json''], example_doc)]"

text \<open>
  C10. The file of an id is the data directory followed by one segment: the id with every
  character other than letters, digits, underscore and hyphen removed, then \<open>.json\<close>.
  That segment has no separator and is neither \<open>.\<close> nor \<open>..\<close>, so the file lies
  directly in the directory whatever the id. Two ids with the same filtered form name
  the same file, and \<open>get\<close>, \<open>delete\<close> and \<open>update\<close> act alike on them.
\<close>

theorem filePath_inside_directory:
  "resolved dir \<Longrightarrow>
     filePath dir ident = dir @ [filter safe_char ident @ ''.json''] \<and>
     butlast (filePath dir ident) = dir \<and>
     CHR ''/'' \<notin> set (last (filePath dir ident)) \<and>
     last (filePath dir ident) \<noteq> ''.'' \<and> last (filePath dir ident) \<noteq> ''..'' \<and>
     (filter safe_char ident = filter safe_char ident' \<longrightarrow>
        filePath dir ident = filePath dir ident' \<and> get dir fs ident = get dir fs ident' \<and>
        delete dir fs ident = delete dir fs ident' \<and>
        update dir fs now ident data = update dir fs now ident' data)"
proof -
  assume r: "resolved dir"
  let ?name = "filter safe_char ident @ ''.json''"
  from r have child: "filePath dir ident = dir @ [?name]"
    by (rule filePath_child)
  then have parent: "butlast (filePath dir ident) = dir" and l: "last (filePath dir ident) = ?name"
    by simp_all
  have same: "filePath dir ident = filePath dir ident' \<and> get dir fs ident = get dir fs ident' \<and>
        delete dir fs ident = delete dir fs ident' \<and>
        update dir fs now ident data = update dir fs now ident' data"
    if "filter safe_char ident = filter safe_char ident'"
  proof -
    from that have f: "filePath dir ident = filePath dir ident'"
      by (simp add: filePath_def)
    have g: "get dir fs ident = get dir fs ident'"
      unfolding get_def f ..
    have d: "delete dir fs ident = delete dir fs ident'"
      unfolding delete_def f ..
    have u: "update dir fs now ident data = update dir fs now ident' data"
      unfolding update_def g f ..
    from f g d u show ?thesis by blast
  qed
  from safe_name_no_sep [of ident] safe_name_not_dots [of ident] l
  have nm: "CHR ''/'' \<notin> set (last (filePath dir ident)) \<and>
     last (filePath dir ident) \<noteq> ''.'' \<and> last (filePath dir ident) \<noteq> ''..''"
    by (simp only:) simp
  from child parent nm same show ?thesis by blast
qed

lemma resolved_example_dir: "resolved example_dir"
  by (simp add: resolved_def example_dir_def)

lemma filter_traversal: "filter safe_char ''../../etc/passwd'' = ''etcpasswd''"
  by code_simp

lemma filter_plain: "filter safe_char ''etc/passwd'' = ''etcpasswd''"
  by code_simp

theorem filePath_inside_directory_witness:
  "filePath example_dir ''../../etc/passwd'' = example_dir @ [''etcpasswd.json''] \<and>
   filePath example_dir ''../../etc/passwd'' = filePath example_dir ''etc/passwd''"
proof -
  note T = filePath_inside_directory [OF resolved_example_dir, of "''../../etc/passwd''" "''etc/passwd''"]
  from T have a: "filePath example_dir ''../../etc/passwd'' =
      example_dir @ [filter safe_char ''../../etc/passwd'' @ ''.json'']"
    by blast
  have e: "filter safe_char ''../../etc/passwd'' = filter safe_char ''etc/passwd''"
    by (simp only: filter_traversal filter_plain)
  with T have b: "filePath example_dir ''../../etc/passwd'' = filePath example_dir ''etc/passwd''"
    by blast
  from a b show ?thesis by (simp only: filter_traversal) simp
qed

text \<open>
  C7 (as amended). \<open>get\<close> of the id that \<open>create\<close> returned yields the document
  \<open>create\<close> returned. That document takes title, description, nodes, connections and
  \<open>lrsConfig\<close> from the input (with the defaults for absent or empty ones), always has
  status \<open>draft\<close>, and carries the generated id and time stamps. \<open>update\<close> of a
  stored id followed by \<open>get\<close> yields the stored document with title, description,
  status, nodes, connections and \<open>lrsConfig\<close> replaced where the payload has them;
  the id and \<open>createdAt\<close> stay whatever the payload holds, and \<open>updatedAt\<close> is the
  time of the call.
\<close>

theorem create_update_roundtrip:
  "(case create dir fs uuid now data of
      (fs', doc) \<Rightarrow>
        get dir fs' (doc_id doc) = Inr doc \<and>
        doc_id doc = uuid \<and> createdAt doc = now \<and> updatedAt doc = now \<and>
        status doc = ''draft'' \<and>
        title doc = or_default (p_title data) ''Untitled Learning Path'' \<and>
        description doc = or_default (p_description data) [] \<and>
        doc_nodes doc = (case p_nodes data of None \<Rightarrow> [] | Some ns \<Rightarrow> ns) \<and>
        doc_connections doc = (case p_connections data of None \<Rightarrow> [] | Some cs \<Rightarrow> cs) \<and>
        lrsConfig doc = (case p_lrsConfig data of None \<Rightarrow> None | Some c \<Rightarrow> c)) \<and>
   (get dir fs ident = Inr existing \<longrightarrow>
      (\<exists>fs' updated.
         update dir fs now ident data = Inr (fs', updated) \<and>
         get dir fs' ident = Inr updated \<and>
         title updated = (case p_title data of Some v \<Rightarrow> v | None \<Rightarrow> title existing) \<and>
         description updated = (case p_description data of Some v \<Rightarrow> v | None \<Rightarrow> description existing) \<and>
         status updated = (case p_status data of Some v \<Rightarrow> v | None \<Rightarrow> status existing) \<and>
         doc_nodes updated = (case p_nodes data of Some v \<Rightarrow> v | None \<Rightarrow> doc_nodes existing) \<and>
         doc_connections updated =
           (case p_connections data of Some v \<Rightarrow> v | None \<Rightarrow> doc_connections existing) \<and>
         lrsConfig updated = (case p_lrsConfig data of Some v \<Rightarrow> v | None \<Rightarrow> lrsConfig existing) \<and>
         doc_id updated = doc_id existing \<and> createdAt updated = createdAt existing \<and>
         updatedAt updated = now))"
  by (simp add: create_def update_def Let_def get_after_write)

text \<open>
  C8 (as amended). \<open>duplicate\<close> of a stored id returns, and stores under its id, a
  document whose id is the generated UUID, with the original's title followed by
  \<open> (Copy)\<close> and the original's nodes and connections. The UUID is not compared with
  the ids in the store: in a store whose files are named after their documents, the new
  id differs from the original's and the original is still stored when the UUID names no
  file yet.
\<close>

theorem duplicate_copy:
  assumes "get dir fs ident = Inr original"
  shows "\<exists>fs' copy.
           duplicate dir fs uuid now ident = Inr (fs', copy) \<and>
           doc_id copy = uuid \<and>
           title copy = title original @ '' (Copy)'' \<and>
           doc_nodes copy = doc_nodes original \<and>
           doc_connections copy = doc_connections original \<and>
           get dir fs' (doc_id copy) = Inr copy \<and>
           (wf_store dir fs \<and> map_of fs (filePath dir uuid) = None \<longrightarrow>
              doc_id copy \<noteq> doc_id original \<and> get dir fs' ident = Inr original)"
proof -
  have fresh: "uuid \<noteq> doc_id original \<and> filePath dir ident \<noteq> filePath dir uuid"
    if w: "wf_store dir fs" and f: "map_of fs (filePath dir uuid) = None"
  proof -
    from w assms have p: "filePath dir ident = filePath dir (doc_id original)"
      by (rule wf_store_stored)
    from assms have "map_of fs (filePath dir ident) = Some original"
      by (simp add: get_def split: option.splits)
    with f have ne: "filePath dir ident \<noteq> filePath dir uuid" by auto
    with p have "uuid \<noteq> doc_id original" by auto
    with ne show ?thesis by simp
  qed
  let ?copy = "snd (create dir fs uuid now ((spread original)\<lparr>p_title := Some (title original @ '' (Copy)'')\<rparr>))"
  let ?fs' = "fst (create dir fs uuid now ((spread original)\<lparr>p_title := Some (title original @ '' (Copy)'')\<rparr>))"
  from assms have d: "duplicate dir fs uuid now ident = Inr (?fs', ?copy)"
    by (simp add: duplicate_def)
  have i: "doc_id ?copy = uuid" and t: "title ?copy = title original @ '' (Copy)''"
    and n: "doc_nodes ?copy = doc_nodes original"
    and c: "doc_connections ?copy = doc_connections original"
    by (simp_all add: create_def spread_def or_default_def Let_def)
  have g: "get dir ?fs' (doc_id ?copy) = Inr ?copy"
    by (simp add: create_def Let_def get_after_write)
  have o: "doc_id ?copy \<noteq> doc_id original \<and> get dir ?fs' ident = Inr original"
    if "wf_store dir fs \<and> map_of fs (filePath dir uuid) = None"
    using that fresh assms by (simp add: create_def Let_def get_other_file)
  from d i t n c g o show ?thesis by blast
qed

lemma example_id_safe:
  "filter safe_char ''3b241101-e2bb-4255-8caf-4136c566a962'' = ''3b241101-e2bb-4255-8caf-4136c566a962''"
  by code_simp

lemma copy_id_safe:
  "filter safe_char ''9f1c2d3e-0a4b-4c5d-8e6f-7a8b9c0d1e2f'' = ''9f1c2d3e-0a4b-4c5d-8e6f-7a8b9c0d1e2f''"
  by code_simp

lemma example_file:
  "filePath example_dir ''3b241101-e2bb-4255-8caf-4136c566a962'' =
     example_dir @ [''3b241101-e2bb-4255-8caf-4136c566a962.json'']"
  using filePath_child [OF resolved_example_dir, of "''3b241101-e2bb-4255-8caf-4136c566a962''"]
  by (simp only: example_id_safe) simp

lemma example_get:
  "get example_dir example_fs ''3b241101-e2bb-4255-8caf-4136c566a962'' = Inr example_doc"
  by (simp add: get_def example_file example_fs_def)

lemma example_wf: "wf_store example_dir example_fs"
  by (simp add: wf_store_def example_fs_def example_file example_doc_def)

theorem create_update_roundtrip_witness:
  "\<exists>fs' updated.
     update example_dir example_fs ''2026-02-01T08:30:00.000Z'' ''3b241101-e2bb-4255-8caf-4136c566a962''
       (empty_payload\<lparr>p_title := Some ''Renamed''\<rparr>) = Inr (fs', updated) \<and>
     get example_dir fs' ''3b241101-e2bb-4255-8caf-4136c566a962'' = Inr updated \<and>
     title updated = ''Renamed'' \<and> status updated = ''published'' \<and>
     doc_nodes updated = doc_nodes example_doc \<and>
     updatedAt updated = ''2026-02-01T08:30:00.000Z''"
proof -
  from create_update_roundtrip
         [where dir = example_dir and fs = example_fs
            and ident = "''3b241101-e2bb-4255-8caf-4136c566a962''" and existing = example_doc
            and now = "''2026-02-01T08:30:00.000Z''"
            and data = "empty_payload\<lparr>p_title := Some ''Renamed''\<rparr>"]
       example_get
  obtain fs' updated where
    "update example_dir example_fs ''2026-02-01T08:30:00.000Z'' ''3b241101-e2bb-4255-8caf-4136c566a962''
       (empty_payload\<lparr>p_title := Some ''Renamed''\<rparr>) = Inr (fs', updated)"
    "get example_dir fs' ''3b241101-e2bb-4255-8caf-4136c566a962'' = Inr updated"
    "title updated = (case p_title (empty_payload\<lparr>p_title := Some ''Renamed''\<rparr>) of
                        Some v \<Rightarrow> v | None \<Rightarrow> title example_doc)"
    "status updated = (case p_status (empty_payload\<lparr>p_title := Some ''Renamed''\<rparr>) of
                        Some v \<Rightarrow> v | None \<Rightarrow> status example_doc)"
    "doc_nodes updated = (case p_nodes (empty_payload\<lparr>p_title := Some ''Renamed''\<rparr>) of
                        Some v \<Rightarrow> v | None \<Rightarrow> doc_nodes example_doc)"
    "updatedAt updated = ''2026-02-01T08:30:00.000Z''"
    by blast
  then show ?thesis
    by (intro exI [of _ fs'] exI [of _ updated]) (simp add: empty_payload_def example_doc_def)
qed

text \<open>
  A document created with status \<open>published\<close> is stored as \<open>draft\<close>; a payload with
  an \<open>id\<close> key leaves the id of the stored document as it was.
\<close>

theorem create_update_counterexample:
  "status (snd (create example_dir [] ''9f1c2d3e-0a4b-4c5d-8e6f-7a8b9c0d1e2f'' ''2026-02-01T08:30:00.000Z''
             (empty_payload\<lparr>p_title := Some ''Intro course'', p_status := Some ''published''\<rparr>)))
     = ''draft'' \<and>
   (case update example_dir example_fs ''2026-02-01T08:30:00.000Z'' ''3b241101-e2bb-4255-8caf-4136c566a962''
           (empty_payload\<lparr>p_id := Some ''other''\<rparr>) of
      Inl e \<Rightarrow> False
    | Inr (fs', updated) \<Rightarrow> doc_id updated = ''3b241101-e2bb-4255-8caf-4136c566a962'')"
  by (simp add: create_def update_def example_get Let_def example_doc_def)

theorem duplicate_copy_witness:
  "\<exists>fs' copy.
     duplicate example_dir example_fs ''9f1c2d3e-0a4b-4c5d-8e6f-7a8b9c0d1e2f'' ''2026-02-01T08:30:00.000Z''
       ''3b241101-e2bb-4255-8caf-4136c566a962'' = Inr (fs', copy) \<and>
     doc_id copy = ''9f1c2d3e-0a4b-4c5d-8e6f-7a8b9c0d1e2f'' \<and>
     doc_id copy \<noteq> doc_id example_doc \<and>
     title copy = ''Intro course (Copy)'' \<and>
     doc_nodes copy = doc_nodes example_doc \<and>
     get example_dir fs' ''3b241101-e2bb-4255-8caf-4136c566a962'' = Inr example_doc"
proof -
  have "filePath example_dir ''9f1c2d3e-0a4b-4c5d-8e6f-7a8b9c0d1e2f'' =
          example_dir @ [''9f1c2d3e-0a4b-4c5d-8e6f-7a8b9c0d1e2f.json'']"
    using filePath_child [OF resolved_example_dir, of "''9f1c2d3e-0a4b-4c5d-8e6f-7a8b9c0d1e2f''"]
    by (simp only: copy_id_safe) simp
  then have fresh: "map_of example_fs (filePath example_dir ''9f1c2d3e-0a4b-4c5d-8e6f-7a8b9c0d1e2f'') = None"
    by (simp add: example_fs_def)
  from duplicate_copy [OF example_get, of "''9f1c2d3e-0a4b-4c5d-8e6f-7a8b9c0d1e2f''" "''2026-02-01T08:30:00.000Z''"]
       example_wf fresh
  obtain fs' copy where
    "duplicate example_dir example_fs ''9f1c2d3e-0a4b-4c5d-8e6f-7a8b9c0d1e2f'' ''2026-02-01T08:30:00.000Z''
       ''3b241101-e2bb-4255-8caf-4136c566a962'' = Inr (fs', copy)"
    "doc_id copy = ''9f1c2d3e-0a4b-4c5d-8e6f-7a8b9c0d1e2f''"
    "doc_id copy \<noteq> doc_id example_doc"
    "title copy = title example_doc @ '' (Copy)''"
    "doc_nodes copy = doc_nodes example_doc"
    "get example_dir fs' ''3b241101-e2bb-4255-8caf-4136c566a962'' = Inr example_doc"
    by blast
  then show ?thesis
    by (intro exI [of _ fs'] exI [of _ copy]) (simp add: example_doc_def)
qed

text \<open>
  When the generated UUID is the id of the document being copied, the copy has the
  original's id and replaces the original in its file.
\<close>

theorem duplicate_copy_counterexample:
  "(case duplicate example_dir example_fs ''3b241101-e2bb-4255-8caf-4136c566a962''
           ''2026-02-01T08:30:00.000Z'' ''3b241101-e2bb-4255-8caf-4136c566a962'' of
      Inl e \<Rightarrow> False
    | Inr (fs', copy) \<Rightarrow>
        doc_id copy = doc_id example_doc \<and>
        title copy = ''Intro course (Copy)'' \<and>
        get example_dir fs' ''3b241101-e2bb-4255-8caf-4136c566a962'' = Inr copy)"
  by (simp add: duplicate_def example_get create_def spread_def or_default_def Let_def
        get_after_write example_doc_def)

section \<open>The validator (nodeTypes.js)\<close>

text \<open>
  Reading \<open>NODE_TYPES[key]\<close>. The constant is an object literal, so besides its own eleven
  keys a read finds the properties every object inherits from \<open>Object.prototype\<close>
  (functions, and the prototype itself for \<open>__proto__\<close>): truthy values that are no
  node type definitions.
\<close>

datatype 'a js_read = Own 'a | Inherited | Missing

definition object_prototype_keys :: "string list" where
  "object_prototype_keys =
     [''constructor'', ''hasOwnProperty'', ''isPrototypeOf'', ''propertyIsEnumerable'',
      ''toLocaleString'', ''toString'', ''valueOf'', ''__proto__'',
      ''__defineGetter__'', ''__defineSetter__'', ''__lookupGetter__'', ''__lookupSetter__'']"

definition NODE_TYPES_read :: "string \<Rightarrow> node_type js_read" where
  "NODE_TYPES_read key =
     (case map_of NODE_TYPES key of
        Some typeDef \<Rightarrow> Own typeDef
      | None \<Rightarrow> if key \<in> set object_prototype_keys then Inherited else Missing)"

datatype js_error = TypeError

record validation =
  valid :: bool
  errors :: "string list"

text \<open>\<open>!node.data || !node.data[field.name]\<close>.\<close>

definition field_missing :: "path_node \<Rightarrow> string \<Rightarrow> bool" where
  "field_missing node name =
     (case map_of (ndata node) name of None \<Rightarrow> True | Some v \<Rightarrow> \<not> truthy v)"

text \<open>
  \<open>validateNode(node)\<close>. For an inherited property \<open>typeDef.fields\<close> is \<open>undefined\<close> and
  the \<open>for ... of\<close> over it throws a \<open>TypeError\<close>.
\<close>

definition validateNode :: "path_node \<Rightarrow> js_error + validation" where
  "validateNode node =
     (case NODE_TYPES_read (ntype node) of
        Missing \<Rightarrow> Inr \<lparr>valid = False, errors = [''Unknown node type: '' @ ntype node]\<rparr>
      | Inherited \<Rightarrow> Inl TypeError
      | Own typeDef \<Rightarrow>
          (let errs = map (\<lambda>field. flabel field @ '' is required'')
                        (filter (\<lambda>field. frequired field \<and> field_missing node (fname field))
                           (tfields typeDef))
           in Inr \<lparr>valid = (errs = []), errors = errs\<rparr>))"

text \<open>A value inside a template literal.\<close>

fun to_display :: "jsval \<Rightarrow> string" where
  "to_display (JStr s) = s"
| "to_display (JNum n) = (if n < 0 then ''-'' @ show_nat (nat (- n)) else show_nat (nat n))"
| "to_display (JBool b) = (if b then ''true'' else ''false'')"
| "to_display JNull = ''null''"

text \<open>\<open>node.data?.title || NODE_TYPES[node.type]?.label || node.id\<close>.\<close>

definition node_label :: "path_node \<Rightarrow> string" where
  "node_label node =
     (let fallback = (case NODE_TYPES_read (ntype node) of
                        Own typeDef \<Rightarrow> if label typeDef \<noteq> [] then label typeDef else nid node
                      | Inherited \<Rightarrow> nid node
                      | Missing \<Rightarrow> nid node)
      in case map_of (ndata node) ''title'' of
           None \<Rightarrow> fallback
         | Some v \<Rightarrow> if truthy v then to_display v else fallback)"

text \<open>The loop over the nodes: the messages it pushes, or the exception that ends it.\<close>

fun node_errors :: "path_node list \<Rightarrow> js_error + string list" where
  "node_errors [] = Inr []"
| "node_errors (node # rest) =
     (case validateNode node of
        Inl e \<Rightarrow> Inl e
      | Inr result \<Rightarrow>
          (case node_errors rest of
             Inl e \<Rightarrow> Inl e
           | Inr es \<Rightarrow>
               Inr ((if \<not> valid result
                     then map (\<lambda>err. ''['' @ node_label node @ ''] '' @ err) (errors result)
                     else []) @ es)))"

text \<open>The loop over the connections.\<close>

fun connection_errors :: "string list \<Rightarrow> connection list \<Rightarrow> string list" where
  "connection_errors nodeIds [] = []"
| "connection_errors nodeIds (conn # rest) =
     (if cfrom conn \<notin> set nodeIds
      then [''Connection references non-existent source node: '' @ cfrom conn] else []) @
     (if cto conn \<notin> set nodeIds
      then [''Connection references non-existent target node: '' @ cto conn] else []) @
     connection_errors nodeIds rest"

text \<open>
  \<open>validatePath(pathData)\<close>, on a stored document. A document without \<open>nodes\<close> is
  treated like one with an empty list, and one without \<open>connections\<close> like one with
  none, as the source does.
\<close>

definition validatePath :: "path_doc \<Rightarrow> js_error + validation" where
  "validatePath pathData =
     (if doc_nodes pathData = []
      then Inr \<lparr>valid = False, errors = [''Learning path must have at least one node'']\<rparr>
      else
        (let startNodes = filter (\<lambda>n. ntype n = ''start'') (doc_nodes pathData);
             endNodes = filter (\<lambda>n. ntype n = ''end'') (doc_nodes pathData);
             errors1 = (if length startNodes = 0 then [''Learning path must have a Start node''] else []) @
                       (if length startNodes > 1 then [''Learning path can only have one Start node''] else []) @
                       (if length endNodes = 0 then [''Learning path must have an End node''] else [])
         in case node_errors (doc_nodes pathData) of
              Inl e \<Rightarrow> Inl e
            | Inr errors2 \<Rightarrow>
                (let errs = errors1 @ errors2 @
                            connection_errors (map nid (doc_nodes pathData)) (doc_connections pathData)
                 in Inr \<lparr>valid = (errs = []), errors = errs\<rparr>)))"

text \<open>
  The conditions of the statements below: the node's type is a key of the catalog; each
  required field of its type has a truthy value in \<open>data\<close>; both ends of every
  connection are ids of nodes of the path.
\<close>

definition registered :: "path_node \<Rightarrow> bool" where
  "registered node = (map_of NODE_TYPES (ntype node) \<noteq> None)"

definition required_filled :: "path_node \<Rightarrow> bool" where
  "required_filled node =
     (case map_of NODE_TYPES (ntype node) of
        None \<Rightarrow> True
      | Some typeDef \<Rightarrow>
          list_all (\<lambda>field. frequired field \<longrightarrow> \<not> field_missing node (fname field)) (tfields typeDef))"

definition endpoints_exist :: "path_doc \<Rightarrow> bool" where
  "endpoints_exist pathData =
     list_all (\<lambda>c. cfrom c \<in> set (map nid (doc_nodes pathData)) \<and>
                    cto c \<in> set (map nid (doc_nodes pathData))) (doc_connections pathData)"

lemma validateNode_ok:
  "registered node \<Longrightarrow> required_filled node \<Longrightarrow> validateNode node = Inr \<lparr>valid = True, errors = []\<rparr>"
  by (auto simp: registered_def required_filled_def validateNode_def NODE_TYPES_read_def
        list_all_iff filter_empty_conv)

lemma node_errors_ok:
  "list_all registered ns \<Longrightarrow> list_all required_filled ns \<Longrightarrow> node_errors ns = Inr []"
  by (induction ns) (simp_all add: validateNode_ok)

lemma connection_errors_ok:
  "list_all (\<lambda>c. cfrom c \<in> set ids \<and> cto c \<in> set ids) cs \<Longrightarrow> connection_errors ids cs = []"
  by (induction cs) simp_all

lemma validateNode_returns:
  "ntype node \<notin> set object_prototype_keys \<Longrightarrow> \<exists>r. validateNode node = Inr r"
  by (simp add: validateNode_def NODE_TYPES_read_def Let_def split: option.splits)

lemma node_errors_returns:
  "list_all (\<lambda>n. ntype n \<notin> set object_prototype_keys) ns \<Longrightarrow> \<exists>es. node_errors ns = Inr es"
proof (induction ns)
  case Nil
  then show ?case by simp
next
  case (Cons n ns)
  then obtain r es where "validateNode n = Inr r" "node_errors ns = Inr es"
    using validateNode_returns [of n] by auto
  then show ?case by simp
qed

text \<open>
  Example documents: the three-node path \<open>s \<rightarrow> t \<rightarrow> e\<close> of the design's scenario, wrapped
  in a stored document.
\<close>

definition doc_with :: "path_node list \<Rightarrow> connection list \<Rightarrow> path_doc" where
  "doc_with ns cs =
     \<lparr>doc_id = ''3b241101-e2bb-4255-8caf-4136c566a962'', title = ''Intro course'',
      description = [], status = ''draft'', doc_nodes = ns, doc_connections = cs,
      lrsConfig = None,
      createdAt = ''2026-01-05T10:00:00.000Z'', updatedAt = ''2026-01-06T10:00:00.000Z''\<rparr>"

definition scenario_nodes :: "path_node list" where
  "scenario_nodes =
     [\<lparr>nid = ''s'', ntype = ''start'', nx = 0, ny = 0, ndata = []\<rparr>,
      \<lparr>nid = ''t'', ntype = ''theory'', nx = 200, ny = 0, ndata = [(''title'', JStr ''Intro'')]\<rparr>,
      \<lparr>nid = ''e'', ntype = ''end'', nx = 400, ny = 0, ndata = []\<rparr>]"

definition scenario_connections :: "connection list" where
  "scenario_connections =
     [\<lparr>cfrom = ''s'', fromPort = ''next'', cto = ''t'', toPort = ''prev''\<rparr>,
      \<lparr>cfrom = ''t'', fromPort = ''next'', cto = ''e'', toPort = ''prev''\<rparr>]"

text \<open>
  C2 (as amended). A path without nodes gets the single error
  \<open>Learning path must have at least one node\<close>. For a path with nodes, none of whose
  types names an inherited object property, validation returns; without a Start node the
  result is invalid and lists \<open>Learning path must have a Start node\<close>, without an End
  node it is invalid and lists \<open>Learning path must have an End node\<close>. A path with
  exactly one Start node, at least one End node, every node of a catalog type with its
  required fields filled, and every connection between existing nodes is valid with no
  errors.
\<close>

theorem validatePath_start_end:
  "(doc_nodes p = [] \<longrightarrow>
      validatePath p = Inr \<lparr>valid = False, errors = [''Learning path must have at least one node'']\<rparr>) \<and>
   (doc_nodes p \<noteq> [] \<and> list_all (\<lambda>n. ntype n \<notin> set object_prototype_keys) (doc_nodes p) \<longrightarrow>
      (\<exists>r. validatePath p = Inr r \<and>
         (filter (\<lambda>n. ntype n = ''start'') (doc_nodes p) = [] \<longrightarrow>
            \<not> valid r \<and> ''Learning path must have a Start node'' \<in> set (errors r)) \<and>
         (filter (\<lambda>n. ntype n = ''end'') (doc_nodes p) = [] \<longrightarrow>
            \<not> valid r \<and> ''Learning path must have an End node'' \<in> set (errors r)))) \<and>
   (length (filter (\<lambda>n. ntype n = ''start'') (doc_nodes p)) = 1 \<and>
    filter (\<lambda>n. ntype n = ''end'') (doc_nodes p) \<noteq> [] \<and>
    list_all registered (doc_nodes p) \<and> list_all required_filled (doc_nodes p) \<and>
    endpoints_exist p \<longrightarrow>
      validatePath p = Inr \<lparr>valid = True, errors = []\<rparr>)"
proof (intro conjI impI)
  assume "doc_nodes p = []"
  then show "validatePath p = Inr \<lparr>valid = False, errors = [''Learning path must have at least one node'']\<rparr>"
    by (simp add: validatePath_def)
next
  assume a: "doc_nodes p \<noteq> [] \<and> list_all (\<lambda>n. ntype n \<notin> set object_prototype_keys) (doc_nodes p)"
  then obtain es where es: "node_errors (doc_nodes p) = Inr es"
    using node_errors_returns by blast
  with a show "\<exists>r. validatePath p = Inr r \<and>
         (filter (\<lambda>n. ntype n = ''start'') (doc_nodes p) = [] \<longrightarrow>
            \<not> valid r \<and> ''Learning path must have a Start node'' \<in> set (errors r)) \<and>
         (filter (\<lambda>n. ntype n = ''end'') (doc_nodes p) = [] \<longrightarrow>
            \<not> valid r \<and> ''Learning path must have an End node'' \<in> set (errors r))"
    by (simp add: validatePath_def Let_def)
next
  assume a: "length (filter (\<lambda>n. ntype n = ''start'') (doc_nodes p)) = 1 \<and>
    filter (\<lambda>n. ntype n = ''end'') (doc_nodes p) \<noteq> [] \<and>
    list_all registered (doc_nodes p) \<and> list_all required_filled (doc_nodes p) \<and>
    endpoints_exist p"
  then have ne: "doc_nodes p \<noteq> []" by auto
  from a have n: "node_errors (doc_nodes p) = Inr []"
    by (simp add: node_errors_ok)
  from a have c: "connection_errors (map nid (doc_nodes p)) (doc_connections p) = []"
    unfolding endpoints_exist_def by (intro connection_errors_ok) simp
  from a have s: "filter (\<lambda>n. ntype n = ''start'') (doc_nodes p) \<noteq> []"
    by auto
  from a s ne n c show "validatePath p = Inr \<lparr>valid = True, errors = []\<rparr>"
    by (simp add: validatePath_def Let_def)
qed

lemma scenario_registered: "list_all registered scenario_nodes"
  by code_simp

lemma scenario_filled: "list_all required_filled scenario_nodes"
  by code_simp

lemma scenario_endpoints: "endpoints_exist (doc_with scenario_nodes scenario_connections)"
  by code_simp

lemma scenario_counts:
  "length (filter (\<lambda>n. ntype n = ''start'') scenario_nodes) = 1 \<and>
   filter (\<lambda>n. ntype n = ''end'') scenario_nodes \<noteq> []"
  by code_simp

lemma no_start_plain:
  "list_all (\<lambda>n. ntype n \<notin> set object_prototype_keys) (tl scenario_nodes) \<and>
   filter (\<lambda>n. ntype n = ''start'') (tl scenario_nodes) = [] \<and> tl scenario_nodes \<noteq> []"
  by code_simp

theorem validatePath_start_end_witness:
  "validatePath (doc_with [] []) =
     Inr \<lparr>valid = False, errors = [''Learning path must have at least one node'']\<rparr> \<and>
   (\<exists>r. validatePath (doc_with (tl scenario_nodes) []) = Inr r \<and> \<not> valid r \<and>
        ''Learning path must have a Start node'' \<in> set (errors r)) \<and>
   validatePath (doc_with scenario_nodes scenario_connections) = Inr \<lparr>valid = True, errors = []\<rparr>"
proof -
  have a: "validatePath (doc_with [] []) =
     Inr \<lparr>valid = False, errors = [''Learning path must have at least one node'']\<rparr>"
    using validatePath_start_end [of "doc_with [] []"] by (simp add: doc_with_def)
  have b: "\<exists>r. validatePath (doc_with (tl scenario_nodes) []) = Inr r \<and> \<not> valid r \<and>
        ''Learning path must have a Start node'' \<in> set (errors r)"
    using validatePath_start_end [of "doc_with (tl scenario_nodes) []"] no_start_plain
    by (simp add: doc_with_def) blast
  have c: "validatePath (doc_with scenario_nodes scenario_connections) = Inr \<lparr>valid = True, errors = []\<rparr>"
    using validatePath_start_end [of "doc_with scenario_nodes scenario_connections"]
      scenario_registered scenario_filled scenario_endpoints scenario_counts
    by (simp add: doc_with_def)
  from a b c show ?thesis by blast
qed

text \<open>
  One Start, one End and nothing required missing, yet invalid: a connection from an id
  that is no node, and a node of a type the catalog does not have.
\<close>

theorem validatePath_counterexample:
  "validatePath (doc_with [\<lparr>nid = ''s'', ntype = ''start'', nx = 0, ny = 0, ndata = []\<rparr>,
                          \<lparr>nid = ''e'', ntype = ''end'', nx = 400, ny = 0, ndata = []\<rparr>]
                         [\<lparr>cfrom = ''x'', fromPort = ''next'', cto = ''e'', toPort = ''prev''\<rparr>]) =
     Inr \<lparr>valid = False, errors = [''Connection references non-existent source node: x'']\<rparr> \<and>
   validatePath (doc_with [\<lparr>nid = ''s'', ntype = ''start'', nx = 0, ny = 0, ndata = []\<rparr>,
                          \<lparr>nid = ''q'', ntype = ''quiz'', nx = 200, ny = 0, ndata = []\<rparr>,
                          \<lparr>nid = ''e'', ntype = ''end'', nx = 400, ny = 0, ndata = []\<rparr>] []) =
     Inr \<lparr>valid = False, errors = [''[q] Unknown node type: quiz'']\<rparr>"
  by code_simp

section \<open>Sending a statement to the record store (xapi.js)\<close>

text \<open>
  What the promise returned by \<open>sendStatement\<close> does: it resolves with a result object,
  it rejects with an exception, or it stays pending.
\<close>

record send_result =
  stored :: bool
  statusCode :: "nat option"
  response :: "string option"
  reason :: "string option"

datatype settled = Resolved send_result | Rejected js_error | Pending

text \<open>\<open>lrsConfig.endpoint.replace(/\/?$/, '/')\<close>: the endpoint ends with a slash afterwards.\<close>

definition with_trailing_slash :: "string \<Rightarrow> string" where
  "with_trailing_slash s = (if s \<noteq> [] \<and> last s = CHR ''/'' then s else s @ ''/'')"

text \<open>
  \<open>new URL('statements', base)\<close> parses \<open>base\<close> as an absolute URL first and throws a
  \<open>TypeError\<close> when that fails. The URL parser drops leading control characters and
  spaces and every tab and newline; an absolute URL then begins with a scheme: a letter,
  then letters, digits, \<open>+\<close>, \<open>-\<close> or \<open>.\<close>, up to a colon. Only this necessary
  condition is modelled; whatever else the parser checks is part of \<open>transport\<close> below.
\<close>

definition is_alpha :: "char \<Rightarrow> bool" where
  "is_alpha c = (c \<in> set ''abcdefghijklmnopqrstuvwxyzABCDEFGHIJKLMNOPQRSTUVWXYZ'')"

definition scheme_char :: "char \<Rightarrow> bool" where
  "scheme_char c = (is_alpha c \<or> c \<in> set ''0123456789+-.'')"

definition url_input :: "string \<Rightarrow> string" where
  "url_input s =
     filter (\<lambda>c. of_char c \<notin> {9, 10, 13 :: nat}) (dropWhile (\<lambda>c. of_char c \<le> (32 :: nat)) s)"

fun scan_scheme :: "string \<Rightarrow> bool" where
  "scan_scheme [] = False"
| "scan_scheme (c # cs) = (if c = CHR '':'' then True else scheme_char c \<and> scan_scheme cs)"

definition has_scheme :: "string \<Rightarrow> bool" where
  "has_scheme s = (case url_input s of [] \<Rightarrow> False | c # cs \<Rightarrow> is_alpha c \<and> scan_scheme cs)"

text \<open>
  The rest of the platform, as a parameter: given the base URL, the credentials
  \<open>key:secret\<close> of the Basic authorisation and the statement, \<open>transport\<close> says what
  follows the scheme check: \<open>Throws\<close> when the URL constructor or \<open>proto.request\<close> throws,
  \<open>NetError msg\<close> for the request's \<open>error\<close> event, \<open>Response code data\<close> when the
  response ended with that status code and body, \<open>NoAnswer\<close> when neither event comes.
\<close>

datatype net_outcome = Throws | NetError string | Response nat string | NoAnswer

text \<open>
  \<open>sendStatement(lrsConfig, statement)\<close>. An exception inside the executor of
  \<open>new Promise\<close> rejects the promise.
\<close>

definition sendStatement ::
  "(string \<Rightarrow> string \<Rightarrow> 'st \<Rightarrow> net_outcome) \<Rightarrow> lrs_config option \<Rightarrow> 'st \<Rightarrow> settled" where
  "sendStatement transport config statement =
     (case config of
        None \<Rightarrow> Resolved \<lparr>stored = False, statusCode = None, response = None,
                           reason = Some ''No LRS configured''\<rparr>
      | Some cfg \<Rightarrow>
          if endpoint cfg = []
          then Resolved \<lparr>stored = False, statusCode = None, response = None,
                          reason = Some ''No LRS configured''\<rparr>
          else
            (let base = with_trailing_slash (endpoint cfg)
             in if \<not> has_scheme base then Rejected TypeError
                else
                  (case transport base (lrs_key cfg @ '':'' @ lrs_secret cfg) statement of
                     Throws \<Rightarrow> Rejected TypeError
                   | NetError msg \<Rightarrow>
                       Resolved \<lparr>stored = False, statusCode = None, response = None,
                                  reason = Some msg\<rparr>
                   | Response code data \<Rightarrow>
                       Resolved \<lparr>stored = (200 \<le> code \<and> code < 300), statusCode = Some code,
                                  response = Some data, reason = None\<rparr>
                   | NoAnswer \<Rightarrow> Pending)))"

lemma sendStatement_no_config:
  "sendStatement transport None st =
     Resolved \<lparr>stored = False, statusCode = None, response = None, reason = Some ''No LRS configured''\<rparr>"
  by (simp add: sendStatement_def)

lemma sendStatement_no_endpoint:
  "endpoint cfg = [] \<Longrightarrow>
   sendStatement transport (Some cfg) st =
     Resolved \<lparr>stored = False, statusCode = None, response = None, reason = Some ''No LRS configured''\<rparr>"
  by (simp add: sendStatement_def)

lemma sendStatement_transport_error:
  assumes "endpoint cfg \<noteq> []" and "has_scheme (with_trailing_slash (endpoint cfg))"
    and "transport (with_trailing_slash (endpoint cfg)) (lrs_key cfg @ '':'' @ lrs_secret cfg) st = NetError msg"
  shows "sendStatement transport (Some cfg) st =
           Resolved \<lparr>stored = False, statusCode = None, response = None, reason = Some msg\<rparr>"
  using assms by (simp add: sendStatement_def)

lemma sendStatement_response:
  assumes "endpoint cfg \<noteq> []" and "has_scheme (with_trailing_slash (endpoint cfg))"
    and "transport (with_trailing_slash (endpoint cfg)) (lrs_key cfg @ '':'' @ lrs_secret cfg) st = Response code data"
  shows "\<exists>r. sendStatement transport (Some cfg) st = Resolved r \<and>
              (stored r \<longleftrightarrow> 200 \<le> code \<and> code < 300) \<and> statusCode r = Some code"
  using assms by (simp add: sendStatement_def)

lemma no_scheme_example: "\<not> has_scheme (with_trailing_slash ''lrs.example.com/xapi'')"
  by code_simp

lemma scheme_example: "has_scheme (with_trailing_slash ''https://lrs.example.com/xapi'')"
  by code_simp

lemma sendStatement_rejects_iff:
  "(\<exists>e. sendStatement transport config st = Rejected e) \<longleftrightarrow>
   (\<exists>cfg. config = Some cfg \<and> endpoint cfg \<noteq> [] \<and>
      (\<not> has_scheme (with_trailing_slash (endpoint cfg)) \<or>
       transport (with_trailing_slash (endpoint cfg)) (lrs_key cfg @ '':'' @ lrs_secret cfg) st = Throws))"
  by (cases config) (auto simp: sendStatement_def Let_def split: net_outcome.splits)

text \<open>
  C6. The claim is that \<open>sendStatement\<close> never rejects. With a record store configured
  as \<open>lrs.example.com/xapi\<close>, an endpoint without a scheme, the URL constructor throws
  inside the promise executor and the promise rejects, whatever the network would do.
  (The three cases the claim lists do resolve as it says: the lemmas above.)
\<close>

theorem sendStatement_rejects_without_scheme:
  "sendStatement transport
     (Some \<lparr>endpoint = ''lrs.example.com/xapi'', lrs_key = ''key'', lrs_secret = ''secret''\<rparr>) st
   = Rejected TypeError"
  using no_scheme_example by (simp add: sendStatement_def Let_def)

section \<open>The players' traversal order (player.js)\<close>

text \<open>
  There are two players. The first builds its order with \<open>buildNodeOrder\<close>, the second
  with \<open>buildTraversalOrder\<close>. Both start from the first node of type \<open>start\<close> and walk
  along connections, remembering the ids they have visited.
\<close>

subsection \<open>\<open>buildNodeOrder\<close>\<close>

text \<open>
  The \<open>while\<close> loop of \<open>buildNodeOrder\<close>: \<open>current\<close> is a node or \<open>undefined\<close>
  (\<open>None\<close>), \<open>visited\<close> the set of ids, \<open>ordered\<close> the result so far. The loop follows
  \<open>outConns[0]\<close>, the first connection in the list that leaves the current node.
\<close>

function walk ::
  "path_node list \<Rightarrow> connection list \<Rightarrow> path_node option \<Rightarrow> string list \<Rightarrow> path_node list
     \<Rightarrow> path_node list" where
  "walk ns cs None visited ordered = ordered"
| "walk ns cs (Some current) visited ordered =
     (if nid current \<in> set visited then ordered
      else
        (let visited' = nid current # visited;
             ordered' = (if ntype current \<noteq> ''start'' then ordered @ [current] else ordered)
         in case filter (\<lambda>c. cfrom c = nid current) cs of
              [] \<Rightarrow> ordered'
            | nextConn # _ \<Rightarrow>
                walk ns cs (find (\<lambda>n. nid n = cto nextConn) ns) visited' ordered'))"
  by pat_completeness auto

text \<open>
  Each round puts a new id into \<open>visited\<close>, and from the second round on the id is that of
  a node of the path: the unvisited ids of the path's nodes run out.
\<close>

definition walk_measure :: "path_node list \<Rightarrow> path_node option \<Rightarrow> string list \<Rightarrow> nat" where
  "walk_measure ns cur visited =
     (case cur of
        None \<Rightarrow> 0
      | Some c \<Rightarrow> 1 + 2 * card (nid ` set ns - set visited) + (if c \<in> set ns then 0 else 1))"

lemma find_in_list: "find P xs = Some x \<Longrightarrow> x \<in> set xs \<and> P x"
  by (induction xs) (auto split: if_splits)

lemma walk_measure_step:
  assumes "nid c \<notin> set visited"
  shows "walk_measure ns (find P ns) (nid c # visited) < walk_measure ns (Some c) visited"
proof (cases "find P ns")
  case None
  then show ?thesis by (simp add: walk_measure_def)
next
  case (Some n)
  then have n: "n \<in> set ns" by (simp add: find_in_list)
  let ?U = "nid ` set ns"
  show ?thesis
  proof (cases "c \<in> set ns")
    case True
    with assms have "nid c \<in> ?U - set visited" by simp
    moreover have "?U - set (nid c # visited) = (?U - set visited) - {nid c}" by auto
    ultimately have "card (?U - set (nid c # visited)) < card (?U - set visited)"
      using card_Diff1_less [of "?U - set visited" "nid c"] by simp
    with Some n True show ?thesis by (simp add: walk_measure_def)
  next
    case False
    have "?U - set (nid c # visited) \<subseteq> ?U - set visited" by auto
    then have "card (?U - set (nid c # visited)) \<le> card (?U - set visited)"
      by (intro card_mono) auto
    with Some n False show ?thesis by (simp add: walk_measure_def)
  qed
qed

termination walk
  by (relation "measure (\<lambda>(ns, cs, cur, visited, ordered). walk_measure ns cur visited)")
     (auto simp: walk_measure_step)

declare walk.simps(2) [simp del]

text \<open>\<open>buildNodeOrder(data)\<close>.\<close>

definition buildNodeOrder :: "path_node list \<Rightarrow> connection list \<Rightarrow> path_node list" where
  "buildNodeOrder ns cs =
     (case find (\<lambda>n. ntype n = ''start'') ns of
        None \<Rightarrow> filter (\<lambda>n. ntype n \<noteq> ''start'' \<and> ntype n \<noteq> ''end'') ns
      | Some startNode \<Rightarrow>
          (let ordered = walk ns cs (Some startNode) [] []
           in if ordered = [] then filter (\<lambda>n. ntype n \<noteq> ''start'') ns else ordered))"

subsection \<open>\<open>buildTraversalOrder\<close>\<close>

text \<open>
  \<open>nodeMap\<close>, \<open>nextMap\<close> and the entries of \<open>nextMap\<close> are plain objects used as
  dictionaries. A plain object is a dictionary of its own entries only for keys that name
  no property inherited from \<open>Object.prototype\<close>: assigning to \<open>__proto__\<close> replaces the
  prototype instead of making an entry, reading \<open>constructor\<close> or \<open>toString\<close> finds an
  inherited function, and \<open>nextMap[conn.from][conn.fromPort] = conn.to\<close> with such a
  \<open>conn.from\<close> writes into an object shared by all objects. \<open>Object.values\<close> lists keys
  that are array indices first, in numeric order, and only the others in insertion order.
  \<open>keys_plain\<close> says that no node id, connection end or port of the path is such a key.
  The model of \<open>buildTraversalOrder\<close> below gives an order for these paths only, and says
  \<open>InheritedKeys\<close> for the others, whose order depends on the state of
  \<open>Object.prototype\<close>.
\<close>

datatype unmodelled = InheritedKeys

definition plain_key :: "string \<Rightarrow> bool" where
  "plain_key k = (k \<notin> set object_prototype_keys)"






















subsection \<open>The traversal as the design describes it\<close>










subsection \<open>The second player against the design\<close>
































section \<open>The progress bar of the first player (player.js)\<close>

text \<open>
  The module state of the first player that progress depends on: \<open>orderedNodes\<close>,
  \<open>currentIndex\<close>, \<open>nodeStates\<close> and the width of the progress bar in per cent
  (\<open>None\<close> before it is first set). An entry of \<open>nodeStates\<close> is
  \<open>{ status, score, startTime }\<close>; \<open>score\<close> is never written after it is set to
  \<open>null\<close> and is left out. \<open>nodeStates\<close> is a plain object keyed by node id, an
  association list for plain keys. The width is the exact value of
  \<open>completed / orderedNodes.length * 100\<close>, of which the program shows the nearest double.
  Sending statements (\<open>sendXapi\<close>) and rendering change none of this.
\<close>

record node_state =
  nstatus :: string
  startTime :: "string option"

record player =
  orderedNodes :: "path_node list"
  currentIndex :: nat
  nodeStates :: "(string \<times> node_state) list"
  bar :: "rat option"

text \<open>
  \<open>nodeStates[key].status = v\<close>: a \<open>TypeError\<close> when there is no entry for the key.
\<close>

definition set_status :: "string \<Rightarrow> string \<Rightarrow> player \<Rightarrow> js_error + player" where
  "set_status key v p =
     (case map_of (nodeStates p) key of
        None \<Rightarrow> Inl TypeError
      | Some s \<Rightarrow> Inr (p\<lparr>nodeStates := AList.update key (s\<lparr>nstatus := v\<rparr>) (nodeStates p)\<rparr>))"

text \<open>\<open>markCompleted(node)\<close>; \<open>None\<close> is an \<open>undefined\<close> argument.\<close>

definition markCompleted :: "path_node option \<Rightarrow> player \<Rightarrow> js_error + player" where
  "markCompleted node p =
     (case node of None \<Rightarrow> Inr p | Some n \<Rightarrow> set_status (nid n) ''completed'' p)"

text \<open>\<open>updateProgress()\<close>.\<close>

definition updateProgress :: "player \<Rightarrow> player" where
  "updateProgress p =
     (let completed = length (filter (\<lambda>kv. nstatus (snd kv) = ''completed'') (nodeStates p));
          pct = (if length (orderedNodes p) > 0
                 then of_nat completed / of_nat (length (orderedNodes p)) * 100 else 0)
      in p\<lparr>bar := Some pct\<rparr>)"

text \<open>\<open>orderedNodes[i]\<close>, \<open>undefined\<close> out of range.\<close>

definition node_at :: "player \<Rightarrow> int \<Rightarrow> path_node option" where
  "node_at p i =
     (if 0 \<le> i \<and> i < int (length (orderedNodes p)) then Some (orderedNodes p ! nat i) else None)"

text \<open>
  \<open>navigateTo(index)\<close>, with \<open>now\<close> the time stamp taken for \<open>startTime\<close>.
  \<open>renderContent\<close> marks an End node completed; \<open>updateProgress\<close> is the last step.
\<close>

definition navigateTo :: "string \<Rightarrow> int \<Rightarrow> player \<Rightarrow> js_error + player" where
  "navigateTo now index p =
     (if index < 0 \<or> index \<ge> int (length (orderedNodes p)) then Inr p
      else
        (let cur = node_at p (int (currentIndex p));
             key = (case cur of None \<Rightarrow> ''undefined'' | Some n \<Rightarrow> nid n);
             active = (case map_of (nodeStates p) key of
                         None \<Rightarrow> False | Some s \<Rightarrow> nstatus s = ''active'')
         in case (if int (currentIndex p) \<noteq> index \<and> active then markCompleted cur p else Inr p) of
              Inl e \<Rightarrow> Inl e
            | Inr p1 \<Rightarrow>
                (let p2 = p1\<lparr>currentIndex := nat index\<rparr>;
                     node = orderedNodes p2 ! nat index
                 in case map_of (nodeStates p2) (nid node) of
                      None \<Rightarrow> Inl TypeError
                    | Some s \<Rightarrow>
                        (let p3 = p2\<lparr>nodeStates :=
                                        AList.update (nid node)
                                          (s\<lparr>nstatus := ''active'', startTime := Some now\<rparr>)
                                          (nodeStates p2)\<rparr>
                         in case (if ntype node = ''end'' then markCompleted (Some node) p3 else Inr p3) of
                              Inl e \<Rightarrow> Inl e
                            | Inr p4 \<Rightarrow> Inr (updateProgress p4)))))"

text \<open>\<open>next()\<close> and \<open>passGate()\<close>, which calls it.\<close>

definition next_node :: "string \<Rightarrow> player \<Rightarrow> js_error + player" where
  "next_node now p =
     (case markCompleted (node_at p (int (currentIndex p))) p of
        Inl e \<Rightarrow> Inl e
      | Inr p1 \<Rightarrow>
          if int (currentIndex p1) < int (length (orderedNodes p1)) - 1
          then navigateTo now (int (currentIndex p1) + 1) p1
          else Inr p1)"

definition passGate :: "string \<Rightarrow> player \<Rightarrow> js_error + player" where
  "passGate now p = next_node now p"

text \<open>
  The \<open>DOMContentLoaded\<close> handler: build the order, give every node of it a pending
  state, show the first node. For node ids that are plain keys.
\<close>

definition start_player ::
  "string \<Rightarrow> path_node list \<Rightarrow> connection list \<Rightarrow> unmodelled + (js_error + player)" where
  "start_player now ns cs =
     (if \<not> list_all (\<lambda>n. plain_key (nid n)) ns then Inl InheritedKeys
      else
        (let ordered = buildNodeOrder ns cs;
             states = foldl (\<lambda>m n. AList.update (nid n) \<lparr>nstatus = ''pending'', startTime = None\<rparr> m)
                        [] ordered
         in Inr (navigateTo now 0
                   \<lparr>orderedNodes = ordered, currentIndex = 0, nodeStates = states, bar = None\<rparr>)))"

text \<open>
  The progress of the design, in per cent: the order entries whose status is completed or
  passed, over the order entries other than Start.
\<close>

definition designed_progress :: "player \<Rightarrow> rat option" where
  "designed_progress p =
     (let done = length (filter (\<lambda>n. case map_of (nodeStates p) (nid n) of
                                         None \<Rightarrow> False
                                       | Some s \<Rightarrow> nstatus s = ''completed'' \<or> nstatus s = ''passed'')
                           (orderedNodes p));
          total = length (filter (\<lambda>n. ntype n \<noteq> ''start'') (orderedNodes p))
      in if total = 0 then None else Some (of_nat done / of_nat total * 100))"

lemma count_states:
  assumes "map fst m = map nid ns" and "distinct (map nid ns)"
  shows "length (filter (\<lambda>n. case map_of m (nid n) of None \<Rightarrow> False | Some s \<Rightarrow> P s) ns) =
         length (filter (\<lambda>kv. P (snd kv)) m)"
  using assms
proof (induction ns arbitrary: m)
  case Nil
  then show ?case by simp
next
  case (Cons n ns)
  then obtain s m' where m: "m = (nid n, s) # m'" and rest: "map fst m' = map nid ns"
    by (cases m) auto
  from Cons.prems(2) have fresh: "nid n \<notin> nid ` set ns" and d: "distinct (map nid ns)"
    by simp_all
  have "filter (\<lambda>n'. case map_of m (nid n') of None \<Rightarrow> False | Some s \<Rightarrow> P s) ns =
        filter (\<lambda>n'. case map_of m' (nid n') of None \<Rightarrow> False | Some s \<Rightarrow> P s) ns"
  proof (rule filter_cong [OF refl])
    fix n' assume "n' \<in> set ns"
    with fresh have "nid n' \<noteq> nid n" by (metis imageI)
    then show "(case map_of m (nid n') of None \<Rightarrow> False | Some s \<Rightarrow> P s) =
               (case map_of m' (nid n') of None \<Rightarrow> False | Some s \<Rightarrow> P s)"
      by (simp add: m)
  qed
  with Cons.IH [OF rest d] show ?case by (simp add: m)
qed

text \<open>
  When the bar is updated it shows the designed progress, in the states the first player
  is in: one state per order entry, no Start node in the order and no status \<open>passed\<close>.
\<close>

lemma updateProgress_designed:
  assumes "map fst (nodeStates p) = map nid (orderedNodes p)"
    and "distinct (map nid (orderedNodes p))"
    and "list_all (\<lambda>n. ntype n \<noteq> ''start'') (orderedNodes p)"
    and "list_all (\<lambda>kv. nstatus (snd kv) \<noteq> ''passed'') (nodeStates p)"
    and "orderedNodes p \<noteq> []"
  shows "bar (updateProgress p) = designed_progress (updateProgress p)"
proof -
  from assms(4) have
    "filter (\<lambda>kv. nstatus (snd kv) = ''completed'' \<or> nstatus (snd kv) = ''passed'') (nodeStates p) =
     filter (\<lambda>kv. nstatus (snd kv) = ''completed'') (nodeStates p)"
    by (intro filter_cong) (auto simp: list_all_iff)
  with count_states [OF assms(1,2), of "\<lambda>s. nstatus s = ''completed'' \<or> nstatus s = ''passed''"]
  have c: "length (filter (\<lambda>n. case map_of (nodeStates p) (nid n) of
                                  None \<Rightarrow> False
                                | Some s \<Rightarrow> nstatus s = ''completed'' \<or> nstatus s = ''passed'')
                      (orderedNodes p)) =
           length (filter (\<lambda>kv. nstatus (snd kv) = ''completed'') (nodeStates p))"
    by simp
  from assms(3) have t: "filter (\<lambda>n. ntype n \<noteq> ''start'') (orderedNodes p) = orderedNodes p"
    by (simp add: list_all_iff)
  from c t assms(5) show ?thesis
    by (simp add: updateProgress_def designed_progress_def Let_def)
qed

text \<open>A path that ends in a gate.\<close>

definition last_gate_nodes :: "path_node list" where
  "last_gate_nodes =
     [\<lparr>nid = ''s'', ntype = ''start'', nx = 0, ny = 0, ndata = []\<rparr>,
      \<lparr>nid = ''g'', ntype = ''gate'', nx = 200, ny = 0, ndata = []\<rparr>]"

definition last_gate_connections :: "connection list" where
  "last_gate_connections = [\<lparr>cfrom = ''s'', fromPort = ''next'', cto = ''g'', toPort = ''prev''\<rparr>]"

definition gate_shown :: player where
  "gate_shown =
     \<lparr>orderedNodes = [\<lparr>nid = ''g'', ntype = ''gate'', nx = 200, ny = 0, ndata = []\<rparr>],
      currentIndex = 0,
      nodeStates = [(''g'', \<lparr>nstatus = ''active'', startTime = Some ''2026-02-01T08:30:00.000Z''\<rparr>)],
      bar = Some 0\<rparr>"

lemma start_last_gate:
  "start_player ''2026-02-01T08:30:00.000Z'' last_gate_nodes last_gate_connections = Inr (Inr gate_shown)"
  by code_simp

lemma gate_shown_progress: "designed_progress gate_shown = Some 0"
  by code_simp

text \<open>
  C9. The claim is that the progress shown is the designed progress at every point of a
  session. On the path \<open>s \<rightarrow> g\<close> the player opens on the gate with the bar at 0. The gate's
  Continue button calls \<open>passGate\<close>: the gate becomes completed, no navigation follows
  because it is the last entry, and \<open>updateProgress\<close> is not called. The bar still shows 0
  while the designed progress is 100.
\<close>

theorem progress_stale_after_last_gate:
  "start_player ''2026-02-01T08:30:00.000Z'' last_gate_nodes last_gate_connections = Inr (Inr gate_shown) \<and>
   passGate ''2026-02-01T08:31:00.000Z'' gate_shown =
     Inr (gate_shown\<lparr>nodeStates :=
            [(''g'', \<lparr>nstatus = ''completed'', startTime = Some ''2026-02-01T08:30:00.000Z''\<rparr>)]\<rparr>) \<and>
   bar (gate_shown\<lparr>nodeStates :=
            [(''g'', \<lparr>nstatus = ''completed'', startTime = Some ''2026-02-01T08:30:00.000Z''\<rparr>)]\<rparr>) = Some 0 \<and>
   designed_progress (gate_shown\<lparr>nodeStates :=
            [(''g'', \<lparr>nstatus = ''completed'', startTime = Some ''2026-02-01T08:30:00.000Z''\<rparr>)]\<rparr>) = Some 100"
  by code_simp

end
